theory Spec2Isabelle
  imports Complex_Main
begin

section \<open>Strings of the host language\<close>

text \<open>
  A JavaScript string is modelled as a \<^typ>\<open>string\<close>, one \<^typ>\<open>char\<close> per code unit
  below 256 (Latin-1).  \<open>String.prototype.toLowerCase\<close> maps the ASCII capitals and the
  Latin-1 capitals (\<open>0xC0\<close> to \<open>0xDE\<close>, the multiplication sign \<open>0xD7\<close> apart) 32
  positions up and leaves every other code unit of that range alone.
\<close>

definition toLowerChar :: "char \<Rightarrow> char" where
  "toLowerChar c =
     (let n = (of_char c :: nat)
      in if (65 \<le> n \<and> n \<le> 90) \<or> (192 \<le> n \<and> n \<le> 222 \<and> n \<noteq> 215)
         then char_of (n + 32) else c)"

definition toLowerCase :: "string \<Rightarrow> string" where
  "toLowerCase s = map toLowerChar s"

text \<open>\<open>s.startsWith(sub)\<close> and \<open>s.includes(sub)\<close> on strings.\<close>

fun startsWith :: "string \<Rightarrow> string \<Rightarrow> bool" where
  "startsWith s [] = True"
| "startsWith [] (c # sub) = False"
| "startsWith (d # s) (c # sub) = (d = c \<and> startsWith s sub)"

fun includes_str :: "string \<Rightarrow> string \<Rightarrow> bool" where
  "includes_str [] sub = (sub = [])"
| "includes_str (d # s) sub = (startsWith (d # s) sub \<or> includes_str s sub)"

text \<open>\<open>Array.prototype.includes\<close> on an array of strings: strict equality with an element.\<close>

definition includes_arr :: "string list \<Rightarrow> string \<Rightarrow> bool" where
  "includes_arr xs x = (x \<in> set xs)"

text \<open>
  \<open>String.prototype.trim\<close> removes white space and line terminators at both ends; below
  256 these are TAB, LF, VT, FF, CR, SP and NBSP.
\<close>

definition isWhiteSpace :: "char \<Rightarrow> bool" where
  "isWhiteSpace c = ((of_char c :: nat) \<in> {9, 10, 11, 12, 13, 32, 160})"

definition trim :: "string \<Rightarrow> string" where
  "trim s = rev (dropWhile isWhiteSpace (rev (dropWhile isWhiteSpace s)))"

text \<open>The backslash that starts a protocol flag such as \<open>\Junk\<close>.\<close>

definition flag :: "string \<Rightarrow> string" where
  "flag name = CHR 0x5C # name"

section \<open>Folder classifier\<close>

text \<open>
  \<open>EmailSyncService.determineSpecialUse(folderName, flags)\<close>.  Both callers pass an array
  for \<open>flags\<close> (\<open>Array.from(folder.flags || [])\<close>), and an array is truthy even when it
  is empty, so the guard \<open>if (flags)\<close> is always taken.
\<close>

definition determineSpecialUse :: "string \<Rightarrow> string list \<Rightarrow> string" where
  "determineSpecialUse folderName flags =
     (let lowerName = toLowerCase folderName in
      if includes_str lowerName ''inbox'' then ''inbox''
      else if includes_str lowerName ''sent'' \<or> includes_str lowerName ''sent mail'' then ''sent''
      else if includes_str lowerName ''draft'' then ''drafts''
      else if includes_str lowerName ''spam'' \<or> includes_str lowerName ''junk'' then ''spam''
      else if includes_str lowerName ''trash'' \<or> includes_str lowerName ''bin'' then ''trash''
      else if includes_str lowerName ''important'' then ''important''
      else if includes_str lowerName ''starred'' then ''starred''
      else if includes_str lowerName ''all mail'' then ''archive''
      else if includes_arr flags (flag ''Inbox'') then ''inbox''
      else if includes_arr flags (flag ''Sent'') then ''sent''
      else if includes_arr flags (flag ''Drafts'') then ''drafts''
      else if includes_arr flags (flag ''Junk'') \<or> includes_arr flags (flag ''Spam'') then ''spam''
      else if includes_arr flags (flag ''Trash'') then ''trash''
      else if includes_arr flags (flag ''Important'') then ''important''
      else if includes_arr flags (flag ''All'') then ''archive''
      else ''custom'')"

subsection \<open>The classifier as the specification words it\<close>

text \<open>
  The specification describes the classifier as a search through two ordered tables: name
  keywords matched as substrings without regard to case, then protocol flags, then the tag
  \<open>custom\<close>.  The specification lists the name keywords; it leaves the flag table open, so
  the flags are those the source tests, in its order.
\<close>

definition nameKeywords :: "(string \<times> string) list" where
  "nameKeywords =
     [(''inbox'', ''inbox''), (''sent'', ''sent''), (''draft'', ''drafts''),
      (''spam'', ''spam''), (''junk'', ''spam''), (''trash'', ''trash''), (''bin'', ''trash''),
      (''important'', ''important''), (''starred'', ''starred''), (''all mail'', ''archive'')]"

definition flagKeywords :: "(string \<times> string) list" where
  "flagKeywords =
     [(flag ''Inbox'', ''inbox''), (flag ''Sent'', ''sent''), (flag ''Drafts'', ''drafts''),
      (flag ''Junk'', ''spam''), (flag ''Spam'', ''spam''), (flag ''Trash'', ''trash''),
      (flag ''Important'', ''important''), (flag ''All'', ''archive'')]"

definition matchesKeyword :: "string \<Rightarrow> string \<Rightarrow> bool" where
  "matchesKeyword folderName keyword =
     includes_str (toLowerCase folderName) (toLowerCase keyword)"

definition nameTag :: "string \<Rightarrow> string option" where
  "nameTag folderName =
     map_option snd (find (\<lambda>(keyword, tag). matchesKeyword folderName keyword) nameKeywords)"

definition flagTag :: "string list \<Rightarrow> string option" where
  "flagTag flags = map_option snd (find (\<lambda>(f, tag). f \<in> set flags) flagKeywords)"

definition classifyFolder_spec :: "string \<Rightarrow> string list \<Rightarrow> string" where
  "classifyFolder_spec folderName flags =
     (case nameTag folderName of
        Some tag \<Rightarrow> tag
      | None \<Rightarrow> (case flagTag flags of Some tag \<Rightarrow> tag | None \<Rightarrow> ''custom''))"

section \<open>Fingerprint\<close>

text \<open>
  The first lines of \<open>handleEmail\<close>:
  \<open>messageIdRaw.replace(/[<>]/g, '').trim()\<close> and then the SHA-1 digest in hexadecimal.
  The digest comes from the runtime's \<open>crypto\<close> module; it is a parameter \<open>sha1hex\<close> here.
\<close>

definition stripAngle :: "string \<Rightarrow> string" where
  "stripAngle s = filter (\<lambda>c. c \<noteq> CHR ''<'' \<and> c \<noteq> CHR ''>'') s"

definition messageIdClean :: "string \<Rightarrow> string" where
  "messageIdClean messageIdRaw = trim (stripAngle messageIdRaw)"

definition fingerprint :: "(string \<Rightarrow> string) \<Rightarrow> string \<Rightarrow> string" where
  "fingerprint sha1hex messageIdRaw = sha1hex (messageIdClean messageIdRaw)"

section \<open>Data model\<close>

text \<open>\<open>types/EmailAccount.ts\<close>: the interfaces \<open>EmailAccount\<close> and \<open>MailboxInfo\<close>.\<close>

record EmailAccount =
  id_acct :: string
  host :: string
  port :: nat
  username :: string
  password :: string
  tls :: bool

record MailboxInfo =
  name_mb :: string
  path_mb :: string
  flags_mb :: "string list"
  specialUse_mb :: "string option"

text \<open>
  What the protocol client hands over for one message (\<open>FetchMessageObject\<close>): every part
  the pipeline reads is optional.  A date is its time value.
\<close>

type_synonym Date = int

record MessageAddress =
  address :: "string option"

record Envelope =
  messageId_env :: "string option"
  subject_env :: "string option"
  from_env :: "MessageAddress list option"
  to_env :: "MessageAddress list option"
  date_env :: "Date option"

record FetchMessageObject =
  envelope :: "Envelope option"
  source :: "string option"

text \<open>The document literal \<open>emailDoc\<close> of \<open>handleEmail\<close>; \<open>null\<close> and \<open>undefined\<close> are \<open>None\<close>.\<close>

record EmailDoc =
  id_doc :: string
  messageId_doc :: string
  subject_doc :: string
  from_doc :: string
  to_doc :: string
  date_doc :: Date
  account_doc :: string
  folder_doc :: string
  folderType_doc :: "string option"
  raw_doc :: string
  aiCategory_doc :: "string option"
  aiConfidence_doc :: "real option"

text \<open>The argument of both notifier calls.\<close>

record Notification =
  subject_ntf :: string
  from_ntf :: string
  account_ntf :: string

section \<open>Errors and effects\<close>

text \<open>
  A thrown value is either a response error of the index store's client, which carries
  \<open>meta.statusCode\<close> when the store answered, or any other error.  \<open>statusCode e\<close> is the
  value of \<open>(error as any)?.meta?.statusCode\<close>.
\<close>

datatype error = ResponseError "nat option" | OtherError string

fun statusCode :: "error \<Rightarrow> nat option" where
  "statusCode (ResponseError sc) = sc"
| "statusCode (OtherError msg) = None"

datatype outcome = Returned | Thrown error

datatype lock_event = Acquired string | Released string

text \<open>
  The closures that \<open>setupRealtimeMonitoring\<close> and \<open>setupConnectionMaintenance\<close> register
  on a client.  Each closure captures the parameters of the call that created it;
  \<open>running\<close> is a \<open>boolean\<close> parameter, passed by value, so each call has a binding of its
  own.
\<close>

record ExistsListener =
  account_el :: EmailAccount
  folder_el :: MailboxInfo
  running_el :: bool

record CloseListener =
  account_cl :: EmailAccount
  running_cl :: bool

record ImapFlow =
  existsListeners :: "ExistsListener list"
  closeListeners :: "CloseListener list"

text \<open>
  Everything the service acts on: the index \<open>emails\<close> of the store (documents by id), the
  calls made to the two notifiers, the mailbox locks taken and given back, the reconnect
  timers set (delay in milliseconds and account), and the two maps of the service object.
  Console output is not part of the model.
\<close>

record world =
  store :: "string \<rightharpoonup> EmailDoc"
  slackCalls :: "Notification list"
  webhookCalls :: "Notification list"
  lockLog :: "lock_event list"
  timers :: "(nat \<times> EmailAccount) list"
  folderCache :: "string \<rightharpoonup> MailboxInfo list"
  clients :: "string \<rightharpoonup> ImapFlow"

text \<open>
  How the collaborators answer while one message goes through the pipeline: a fault of the
  existence query (otherwise the store answers from its contents), the classification
  request (an error, or the text of the first candidate when there is one), faults of the
  index write and of the two notifier requests, and the clock.
\<close>

record Services =
  getFault :: "error option"
  classify :: "string \<Rightarrow> string \<Rightarrow> error + string option"
  indexFault :: "error option"
  slackFault :: "error option"
  webhookFault :: "error option"
  now :: Date

section \<open>Classification service\<close>

definition LABELS :: "string list" where
  "LABELS = [''Interested'', ''Meeting Booked'', ''Not Interested'', ''Spam'', ''Out of Office'']"

text \<open>
  \<open>AICategorizationService.categorizeEmail(subject, body)\<close>; \<open>post\<close> stands for the request
  \<open>axios.post\<close> built from the two texts.
\<close>

definition categorizeEmail :: "(string \<Rightarrow> string \<Rightarrow> error + string option) \<Rightarrow> string \<Rightarrow> string \<Rightarrow> string" where
  "categorizeEmail post subject body =
     (case post subject body of
        Inr text \<Rightarrow>
          (let labelRaw = (case text of Some t \<Rightarrow> t | None \<Rightarrow> []);
               labelNorm = (case find (\<lambda>l. toLowerCase l = toLowerCase (trim labelRaw)) LABELS of
                              Some l \<Rightarrow> l
                            | None \<Rightarrow> ''Out of Office'')
           in labelNorm)
      | Inl e \<Rightarrow> ''Spam'')"

section \<open>Notifiers\<close>

text \<open>
  \<open>SlackNotificationService.sendInterestedEmailNotification\<close> awaits the request and has no
  handler of its own; \<open>WebhookIntegrationService.triggerInterestedEmailWebhook\<close> wraps its
  request in \<open>try\<close>/\<open>catch\<close> and only logs.  The call lists record every request made,
  whether or not it went through.
\<close>

definition sendInterestedEmailNotification :: "Services \<Rightarrow> Notification \<Rightarrow> world \<Rightarrow> outcome \<times> world" where
  "sendInterestedEmailNotification sv email w =
     (let w' = w\<lparr>slackCalls := slackCalls w @ [email]\<rparr>
      in case slackFault sv of Some e \<Rightarrow> (Thrown e, w') | None \<Rightarrow> (Returned, w'))"

definition triggerInterestedEmailWebhook :: "Services \<Rightarrow> Notification \<Rightarrow> world \<Rightarrow> outcome \<times> world" where
  "triggerInterestedEmailWebhook sv email w =
     (let w' = w\<lparr>webhookCalls := webhookCalls w @ [email]\<rparr>
      in case webhookFault sv of Some err \<Rightarrow> (Returned, w') | None \<Rightarrow> (Returned, w'))"

section \<open>Index store\<close>

text \<open>
  \<open>esClient.get\<close> answers with the document, or throws: status 404 when no document has
  the id, or the fault of this call.  \<open>esClient.index\<close> creates or replaces the document
  under the id, or throws the fault of this call.
\<close>

definition esGet :: "Services \<Rightarrow> string \<Rightarrow> world \<Rightarrow> error + EmailDoc" where
  "esGet sv i w =
     (case getFault sv of
        Some e \<Rightarrow> Inl e
      | None \<Rightarrow> (case store w i of Some d \<Rightarrow> Inr d | None \<Rightarrow> Inl (ResponseError (Some 404))))"

definition esIndex :: "Services \<Rightarrow> string \<Rightarrow> EmailDoc \<Rightarrow> world \<Rightarrow> outcome \<times> world" where
  "esIndex sv i document w =
     (case indexFault sv of
        Some e \<Rightarrow> (Thrown e, w)
      | None \<Rightarrow> (Returned, w\<lparr>store := (store w)(i \<mapsto> document)\<rparr>))"

section \<open>Processing pipeline\<close>

text \<open>\<open>Array.prototype.join\<close>: an \<open>undefined\<close> element contributes the empty string.\<close>

fun join :: "string \<Rightarrow> string option list \<Rightarrow> string" where
  "join sep [] = []"
| "join sep [x] = (case x of Some s \<Rightarrow> s | None \<Rightarrow> [])"
| "join sep (x # y # ys) = (case x of Some s \<Rightarrow> s | None \<Rightarrow> []) @ sep @ join sep (y # ys)"

text \<open>\<open>list?.map((f: any) => f.address).join(', ') || ''\<close>\<close>

definition addresses :: "MessageAddress list option \<Rightarrow> string" where
  "addresses list = (case list of Some fs \<Rightarrow> join '', '' (map address fs) | None \<Rightarrow> [])"

text \<open>The reads \<open>msg.envelope?.field\<close>.\<close>

definition envelopeField :: "(Envelope \<Rightarrow> 'a option) \<Rightarrow> FetchMessageObject \<Rightarrow> 'a option" where
  "envelopeField field msg = (case envelope msg of Some env \<Rightarrow> field env | None \<Rightarrow> None)"

definition subjectOf :: "FetchMessageObject \<Rightarrow> string" where
  "subjectOf msg = (case envelopeField subject_env msg of Some s \<Rightarrow> s | None \<Rightarrow> [])"

definition rawOf :: "FetchMessageObject \<Rightarrow> string" where
  "rawOf msg = (case source msg of Some buffer \<Rightarrow> buffer | None \<Rightarrow> [])"

text \<open>The document literal, with \<open>aiCategory: null\<close> and \<open>aiConfidence: null\<close> as written.\<close>

definition emailDoc :: "Services \<Rightarrow> EmailAccount \<Rightarrow> FetchMessageObject \<Rightarrow> MailboxInfo \<Rightarrow> string \<Rightarrow> string \<Rightarrow> EmailDoc" where
  "emailDoc sv account msg folder messageId clean =
     \<lparr>id_doc = messageId,
      messageId_doc = clean,
      subject_doc = subjectOf msg,
      from_doc = addresses (envelopeField from_env msg),
      to_doc = addresses (envelopeField to_env msg),
      date_doc = (case envelopeField date_env msg of Some d \<Rightarrow> d | None \<Rightarrow> now sv),
      account_doc = id_acct account,
      folder_doc = name_mb folder,
      folderType_doc = specialUse_mb folder,
      raw_doc = rawOf msg,
      aiCategory_doc = None,
      aiConfidence_doc = None\<rparr>"

definition notification :: "EmailAccount \<Rightarrow> FetchMessageObject \<Rightarrow> Notification" where
  "notification account msg =
     \<lparr>subject_ntf = subjectOf msg,
      from_ntf = addresses (envelopeField from_env msg),
      account_ntf = id_acct account\<rparr>"

text \<open>
  The last statement of \<open>handleEmail\<close>: one \<open>try\<close> around both awaited notifier calls,
  whose \<open>catch\<close> logs and returns.
\<close>

definition notifyInterested :: "Services \<Rightarrow> string \<Rightarrow> Notification \<Rightarrow> world \<Rightarrow> outcome \<times> world" where
  "notifyInterested sv aiCategory email w =
     (let attempt =
            (if aiCategory = ''Interested'' then
               (case sendInterestedEmailNotification sv email w of
                  (Thrown e, w1) \<Rightarrow> (Thrown e, w1)
                | (Returned, w1) \<Rightarrow> triggerInterestedEmailWebhook sv email w1)
             else (Returned, w))
      in case attempt of
           (Thrown e, w2) \<Rightarrow> (Returned, w2)
         | (Returned, w2) \<Rightarrow> (Returned, w2))"

text \<open>\<open>EmailSyncService.handleEmail(account, msg, folder)\<close>.\<close>

definition handleEmail :: "(string \<Rightarrow> string) \<Rightarrow> Services \<Rightarrow> EmailAccount \<Rightarrow> FetchMessageObject \<Rightarrow> MailboxInfo \<Rightarrow> world \<Rightarrow> outcome \<times> world" where
  "handleEmail sha1hex sv account msg folder w =
     (case envelopeField messageId_env msg of
        None \<Rightarrow> (Returned, w)
      | Some messageIdRaw \<Rightarrow>
          if messageIdRaw = [] then (Returned, w)
          else
            (let clean = messageIdClean messageIdRaw;
                 messageId = sha1hex clean
             in case esGet sv messageId w of
                  Inr found \<Rightarrow> (Returned, w)
                | Inl err \<Rightarrow>
                    if statusCode err \<noteq> Some 404 then (Thrown err, w)
                    else
                      (let subject = subjectOf msg;
                           raw = rawOf msg;
                           aiCategory = categorizeEmail (classify sv) subject raw
                       in case esIndex sv messageId (emailDoc sv account msg folder messageId clean) w of
                            (Thrown e, w1) \<Rightarrow> (Thrown e, w1)
                          | (Returned, w1) \<Rightarrow>
                              notifyInterested sv aiCategory (notification account msg) w1)))"

section \<open>Backfill of one folder\<close>

text \<open>
  What \<open>client.fetch\<close> yields to a \<open>for await\<close> loop: messages, each with the answers the
  collaborators give while it is handled, and possibly an error that ends the iteration.
\<close>

datatype fetch_item = Yield FetchMessageObject Services | FetchThrows error

text \<open>
  The loop \<open>for await (let msg of client.fetch(...)) { await this.handleEmail(account, msg,
  folder); ... }\<close>.  The counter \<open>fetchedCount\<close> and the pause of 10 ms after every 25
  messages change nothing the model records.
\<close>

fun fetchLoop :: "(string \<Rightarrow> string) \<Rightarrow> EmailAccount \<Rightarrow> MailboxInfo \<Rightarrow> fetch_item list \<Rightarrow> world \<Rightarrow> outcome \<times> world" where
  "fetchLoop sha1hex account folder [] w = (Returned, w)"
| "fetchLoop sha1hex account folder (FetchThrows e # rest) w = (Thrown e, w)"
| "fetchLoop sha1hex account folder (Yield msg sv # rest) w =
     (case handleEmail sha1hex sv account msg folder w of
        (Thrown e, w1) \<Rightarrow> (Thrown e, w1)
      | (Returned, w1) \<Rightarrow> fetchLoop sha1hex account folder rest w1)"

text \<open>\<open>client.getMailboxLock(path)\<close> and \<open>lock.release()\<close>.\<close>

definition getMailboxLock :: "error option \<Rightarrow> string \<Rightarrow> world \<Rightarrow> outcome \<times> world" where
  "getMailboxLock fault path w =
     (case fault of
        Some e \<Rightarrow> (Thrown e, w)
      | None \<Rightarrow> (Returned, w\<lparr>lockLog := lockLog w @ [Acquired path]\<rparr>))"

definition release :: "string \<Rightarrow> world \<Rightarrow> world" where
  "release path w = w\<lparr>lockLog := lockLog w @ [Released path]\<rparr>"

text \<open>How the protocol client answers during the backfill of one folder.\<close>

record FolderSession =
  lockFault :: "error option"
  fetched :: "fetch_item list"

text \<open>
  \<open>EmailSyncService.processFolderEmails(client, account, folder)\<close>: the lock is taken
  inside the outer \<open>try\<close>, the loop runs inside the inner \<open>try\<close> whose \<open>finally\<close> releases
  the lock, and the outer \<open>catch\<close> logs.
\<close>

definition processFolderEmails :: "(string \<Rightarrow> string) \<Rightarrow> FolderSession \<Rightarrow> EmailAccount \<Rightarrow> MailboxInfo \<Rightarrow> world \<Rightarrow> outcome \<times> world" where
  "processFolderEmails sha1hex fs account folder w =
     (let attempt =
            (case getMailboxLock (lockFault fs) (path_mb folder) w of
               (Thrown e, w1) \<Rightarrow> (Thrown e, w1)
             | (Returned, w1) \<Rightarrow>
                 (case fetchLoop sha1hex account folder (fetched fs) w1 of
                    (out, w2) \<Rightarrow> (out, release (path_mb folder) w2)))
      in case attempt of
           (Thrown e, w3) \<Rightarrow> (Returned, w3)
         | (Returned, w3) \<Rightarrow> (Returned, w3))"

section \<open>Live updates and connection maintenance\<close>

text \<open>
  \<open>setupRealtimeMonitoring(client, account, folder, running)\<close> registers the \<open>exists\<close>
  callback; the callback reads the parameter \<open>running\<close> of this call.
\<close>

definition setupRealtimeMonitoring :: "ImapFlow \<Rightarrow> EmailAccount \<Rightarrow> MailboxInfo \<Rightarrow> bool \<Rightarrow> ImapFlow" where
  "setupRealtimeMonitoring client account folder running =
     client\<lparr>existsListeners := existsListeners client @
       [\<lparr>account_el = account, folder_el = folder, running_el = running\<rparr>]\<rparr>"

text \<open>How the protocol client answers while one \<open>exists\<close> event is handled.\<close>

record LiveSession =
  lockFault_live :: "error option"
  status :: "error + int option"
  fetchedUid :: "int \<Rightarrow> fetch_item list"

text \<open>
  The body of the \<open>exists\<close> callback.  \<open>status\<close> answers with \<open>uidNext\<close> when it is a
  number.  A thrown outcome is the rejection of the callback's promise.
\<close>

definition onExists :: "(string \<Rightarrow> string) \<Rightarrow> LiveSession \<Rightarrow> ExistsListener \<Rightarrow> world \<Rightarrow> outcome \<times> world" where
  "onExists sha1hex ls listener w =
     (if \<not> running_el listener then (Returned, w)
      else
        (case getMailboxLock (lockFault_live ls) (path_mb (folder_el listener)) w of
           (Thrown e, w1) \<Rightarrow> (Thrown e, w1)
         | (Returned, w1) \<Rightarrow>
             (case (case status ls of
                      Inl e \<Rightarrow> (Thrown e, w1)
                    | Inr None \<Rightarrow> (Returned, w1)
                    | Inr (Some uidNext) \<Rightarrow>
                        (let latestUid = uidNext - 1
                         in if latestUid = 0 then (Returned, w1)
                            else fetchLoop sha1hex (account_el listener) (folder_el listener)
                                   (fetchedUid ls latestUid) w1)) of
                (out, w2) \<Rightarrow> (out, release (path_mb (folder_el listener)) w2))))"

text \<open>
  \<open>setupConnectionMaintenance(client, account, running)\<close> registers the \<open>close\<close> callback,
  which assigns \<open>false\<close> to the parameter \<open>running\<close> of this call and sets the reconnect
  timer.  The \<open>error\<close> callback only logs, and the keep-alive loop reads the same
  parameter every five minutes; neither is modelled.
\<close>

definition setupConnectionMaintenance :: "ImapFlow \<Rightarrow> EmailAccount \<Rightarrow> bool \<Rightarrow> ImapFlow" where
  "setupConnectionMaintenance client account running =
     client\<lparr>closeListeners := closeListeners client @
       [\<lparr>account_cl = account, running_cl = running\<rparr>]\<rparr>"

definition onClose :: "CloseListener \<Rightarrow> world \<Rightarrow> CloseListener \<times> world" where
  "onClose listener w =
     (listener\<lparr>running_cl := False\<rparr>,
      w\<lparr>timers := timers w @ [(10000, account_cl listener)]\<rparr>)"

text \<open>
  Events of the client registered for an account: every listener of the event runs, in
  the order of registration.  A rejected \<open>exists\<close> callback stops nothing else.
\<close>

fun runClose :: "CloseListener list \<Rightarrow> world \<Rightarrow> CloseListener list \<times> world" where
  "runClose [] w = ([], w)"
| "runClose (l # ls) w =
     (case onClose l w of
        (l', w1) \<Rightarrow> (case runClose ls w1 of (ls', w2) \<Rightarrow> (l' # ls', w2)))"

definition emitClose :: "string \<Rightarrow> world \<Rightarrow> world" where
  "emitClose accountId w =
     (case clients w accountId of
        None \<Rightarrow> w
      | Some client \<Rightarrow>
          (case runClose (closeListeners client) w of
             (ls', w1) \<Rightarrow> w1\<lparr>clients := (clients w1)(accountId \<mapsto> client\<lparr>closeListeners := ls'\<rparr>)\<rparr>))"

fun runExists :: "(string \<Rightarrow> string) \<Rightarrow> LiveSession \<Rightarrow> ExistsListener list \<Rightarrow> world \<Rightarrow> world" where
  "runExists sha1hex ls [] w = w"
| "runExists sha1hex ls (l # rest) w = runExists sha1hex ls rest (snd (onExists sha1hex ls l w))"

definition emitExists :: "(string \<Rightarrow> string) \<Rightarrow> LiveSession \<Rightarrow> string \<Rightarrow> world \<Rightarrow> world" where
  "emitExists sha1hex ls accountId w =
     (case clients w accountId of
        None \<Rightarrow> w
      | Some client \<Rightarrow> runExists sha1hex ls (existsListeners client) w)"

section \<open>Folder discovery and the connection\<close>

text \<open>An entry of \<open>client.list()\<close>; its set of flags may be missing.\<close>

record ListResponse =
  name_lr :: string
  path_lr :: string
  flags_lr :: "string list option"

text \<open>The entry \<open>{ name: 'INBOX', path: 'INBOX', flags: [] }\<close> that stands in for a failed listing.\<close>

definition fallbackInbox :: MailboxInfo where
  "fallbackInbox = \<lparr>name_mb = ''INBOX'', path_mb = ''INBOX'', flags_mb = [], specialUse_mb = None\<rparr>"

text \<open>\<open>EmailSyncService.getAllFolders(client, account)\<close>; \<open>listing\<close> is what \<open>client.list()\<close> does.\<close>

definition getAllFolders :: "error + ListResponse list \<Rightarrow> EmailAccount \<Rightarrow> world \<Rightarrow> MailboxInfo list \<times> world" where
  "getAllFolders listing account w =
     (case listing of
        Inr folders \<Rightarrow>
          (let processedFolders =
                 map (\<lambda>folder.
                        \<lparr>name_mb = name_lr folder,
                         path_mb = path_lr folder,
                         flags_mb = (case flags_lr folder of Some fl \<Rightarrow> fl | None \<Rightarrow> []),
                         specialUse_mb =
                           Some (determineSpecialUse (name_lr folder)
                                   (case flags_lr folder of Some fl \<Rightarrow> fl | None \<Rightarrow> []))\<rparr>)
                     folders
           in (processedFolders,
               w\<lparr>folderCache := (folderCache w)(id_acct account \<mapsto> processedFolders)\<rparr>))
      | Inl e \<Rightarrow> ([fallbackInbox], w))"

text \<open>How the protocol client answers during one run of \<open>connectAndSync\<close>.\<close>

record Session =
  connectFault :: "error option"
  listing :: "error + ListResponse list"
  folderSession :: "MailboxInfo \<Rightarrow> FolderSession"

text \<open>
  The loop \<open>for (const folder of folders)\<close> of \<open>connectAndSync\<close>, with its \<open>try\<close>/\<open>catch\<close>
  around the body.
\<close>

fun syncFolders :: "(string \<Rightarrow> string) \<Rightarrow> Session \<Rightarrow> EmailAccount \<Rightarrow> bool \<Rightarrow> MailboxInfo list \<Rightarrow> ImapFlow \<Rightarrow> world \<Rightarrow> ImapFlow \<times> world" where
  "syncFolders sha1hex ss account running [] client w = (client, w)"
| "syncFolders sha1hex ss account running (folder # rest) client w =
     (let attempt =
            (case processFolderEmails sha1hex (folderSession ss folder) account folder w of
               (Thrown e, w1) \<Rightarrow> (Thrown e, client, w1)
             | (Returned, w1) \<Rightarrow>
                 (Returned,
                  (if name_mb folder = ''INBOX''
                   then setupRealtimeMonitoring client account folder running
                   else client),
                  w1))
      in case attempt of
           (out, client1, w2) \<Rightarrow> syncFolders sha1hex ss account running rest client1 w2)"

text \<open>\<open>EmailSyncService.connectAndSync(account)\<close>.\<close>

definition connectAndSync :: "(string \<Rightarrow> string) \<Rightarrow> Session \<Rightarrow> EmailAccount \<Rightarrow> world \<Rightarrow> outcome \<times> world" where
  "connectAndSync sha1hex ss account w =
     (case connectFault ss of
        Some e \<Rightarrow> (Thrown e, w)
      | None \<Rightarrow>
          (let client = \<lparr>existsListeners = [], closeListeners = []\<rparr>;
               running = True
           in case getAllFolders (listing ss) account w of
                (folders, w1) \<Rightarrow>
                  (case syncFolders sha1hex ss account running folders client w1 of
                     (client1, w2) \<Rightarrow>
                       (let client2 = setupConnectionMaintenance client1 account running
                        in (Returned, w2\<lparr>clients := (clients w2)(id_acct account \<mapsto> client2)\<rparr>)))))"

section \<open>Example inputs\<close>

text \<open>
  The end-to-end scenario of the specification: account \<open>A1\<close>, folder \<open>INBOX\<close>, one message
  with identifier \<open><id-1>\<close> and subject \<open>Interview Invite\<close> that the classifier labels
  \<open>Interested\<close>.  The examples need some digest function; no statement below depends on
  which one, so a tagging function takes the place of SHA-1 in them.
\<close>

definition exampleDigest :: "string \<Rightarrow> string" where
  "exampleDigest s = ''sha1:'' @ s"

definition accountA1 :: EmailAccount where
  "accountA1 =
     \<lparr>id_acct = ''A1'', host = ''imap.example.org'', port = 993,
      username = ''a1'', password = ''secret'', tls = True\<rparr>"

definition inboxFolder :: MailboxInfo where
  "inboxFolder =
     \<lparr>name_mb = ''INBOX'', path_mb = ''INBOX'', flags_mb = [], specialUse_mb = Some ''inbox''\<rparr>"

definition message1 :: FetchMessageObject where
  "message1 =
     \<lparr>envelope = Some
        \<lparr>messageId_env = Some ''<id-1>'',
         subject_env = Some ''Interview Invite'',
         from_env = Some [\<lparr>address = Some ''hr@example.org''\<rparr>],
         to_env = Some [\<lparr>address = Some ''a1@example.org''\<rparr>],
         date_env = Some 1700000000000\<rparr>,
      source = Some ''Subject: Interview Invite''\<rparr>"

definition servicesUp :: Services where
  "servicesUp =
     \<lparr>getFault = None,
      classify = (\<lambda>subject body. Inr (Some ''Interested'')),
      indexFault = None,
      slackFault = None,
      webhookFault = None,
      now = 1700000000500\<rparr>"

definition emptyWorld :: world where
  "emptyWorld =
     \<lparr>store = Map.empty, slackCalls = [], webhookCalls = [], lockLog = [], timers = [],
      folderCache = Map.empty, clients = Map.empty\<rparr>"

text \<open>Variants of the scenario in which one collaborator is down.\<close>

definition servicesNotifiersDown :: Services where
  "servicesNotifiersDown =
     servicesUp\<lparr>slackFault := Some (OtherError ''chat notifier unreachable''),
                webhookFault := Some (OtherError ''webhook sink unreachable'')\<rparr>"

definition servicesWebhookDown :: Services where
  "servicesWebhookDown = servicesUp\<lparr>webhookFault := Some (OtherError ''webhook sink unreachable'')\<rparr>"

definition servicesSlackDown :: Services where
  "servicesSlackDown = servicesUp\<lparr>slackFault := Some (OtherError ''chat notifier unreachable'')\<rparr>"

definition servicesClassifierDown :: Services where
  "servicesClassifierDown =
     servicesUp\<lparr>classify := (\<lambda>subject body. Inl (OtherError ''classification service unavailable''))\<rparr>"

definition servicesClassifierIndexDown :: Services where
  "servicesClassifierIndexDown =
     servicesClassifierDown\<lparr>indexFault := Some (ResponseError (Some 503))\<rparr>"

definition servicesStoreDown :: Services where
  "servicesStoreDown = servicesUp\<lparr>getFault := Some (ResponseError (Some 503))\<rparr>"

text \<open>A second message, a folder \<open>Sent\<close>, and a store that refuses writes.\<close>

definition message2 :: FetchMessageObject where
  "message2 =
     \<lparr>envelope = Some
        \<lparr>messageId_env = Some ''<id-2>'',
         subject_env = Some ''Re: Interview Invite'',
         from_env = Some [\<lparr>address = Some ''hr@example.org''\<rparr>],
         to_env = Some [\<lparr>address = Some ''a1@example.org''\<rparr>],
         date_env = None\<rparr>,
      source = None\<rparr>"

definition sentFolder :: MailboxInfo where
  "sentFolder =
     \<lparr>name_mb = ''Sent'', path_mb = ''Sent'', flags_mb = [flag ''Sent''],
      specialUse_mb = Some ''sent''\<rparr>"

definition servicesIndexDown :: Services where
  "servicesIndexDown = servicesUp\<lparr>indexFault := Some (ResponseError (Some 503))\<rparr>"

text \<open>
  Runs of \<open>connectAndSync\<close>: the scenario itself; an account with the folders \<open>Sent\<close> and
  \<open>INBOX\<close> where the index write fails for the message of \<open>Sent\<close>; an account whose
  folders cannot be listed.
\<close>

definition sessionA1 :: Session where
  "sessionA1 =
     \<lparr>connectFault = None,
      listing = Inr [\<lparr>name_lr = ''INBOX'', path_lr = ''INBOX'', flags_lr = None\<rparr>],
      folderSession = (\<lambda>folder. \<lparr>lockFault = None, fetched = [Yield message1 servicesUp]\<rparr>)\<rparr>"

definition sessionSentFails :: Session where
  "sessionSentFails =
     \<lparr>connectFault = None,
      listing = Inr [\<lparr>name_lr = ''Sent'', path_lr = ''Sent'', flags_lr = Some [flag ''Sent'']\<rparr>,
                     \<lparr>name_lr = ''INBOX'', path_lr = ''INBOX'', flags_lr = None\<rparr>],
      folderSession =
        (\<lambda>folder. if name_mb folder = ''Sent''
                   then \<lparr>lockFault = None, fetched = [Yield message1 servicesIndexDown]\<rparr>
                   else \<lparr>lockFault = None, fetched = [Yield message2 servicesUp]\<rparr>)\<rparr>"

definition sessionNoListing :: Session where
  "sessionNoListing =
     \<lparr>connectFault = None,
      listing = Inl (OtherError ''LIST failed''),
      folderSession = (\<lambda>folder. \<lparr>lockFault = None, fetched = [Yield message1 servicesUp]\<rparr>)\<rparr>"

text \<open>An \<open>exists\<close> event for a new message with uid 2.\<close>

definition liveSession1 :: LiveSession where
  "liveSession1 =
     \<lparr>lockFault_live = None,
      status = Inr (Some 3),
      fetchedUid = (\<lambda>uid. if uid = 2 then [Yield message2 servicesUp] else [])\<rparr>"

text \<open>The same event when the closed connection refuses every request.\<close>

definition liveSessionClosed :: LiveSession where
  "liveSessionClosed =
     \<lparr>lockFault_live = Some (OtherError ''Connection not available''),
      status = Inl (OtherError ''Connection not available''),
      fetchedUid = (\<lambda>uid. [FetchThrows (OtherError ''Connection not available'')])\<rparr>"

text \<open>
  The scenario continued: the account is synchronised, then its connection closes, then
  an \<open>exists\<close> event is delivered.
\<close>

definition afterSync :: world where
  "afterSync = snd (connectAndSync exampleDigest sessionA1 accountA1 emptyWorld)"

definition afterClose :: world where
  "afterClose = emitClose ''A1'' afterSync"

definition afterExists :: world where
  "afterExists = emitExists exampleDigest liveSession1 ''A1'' afterClose"

section \<open>Properties of the folder classifier\<close>

lemma startsWith_append: "startsWith s (a @ b) \<Longrightarrow> startsWith s a"
  by (induction s a rule: startsWith.induct) auto

lemma includes_str_append: "includes_str s (a @ b) \<Longrightarrow> includes_str s a"
proof (induction s)
  case Nil
  then show ?case by simp
next
  case (Cons d s)
  then show ?case by (auto dest: startsWith_append)
qed

lemma sent_mail_redundant:
  "(includes_str s ''sent'' \<or> includes_str s ''sent mail'') = includes_str s ''sent''"
  using includes_str_append [of s "''sent''" "'' mail''"] by auto

lemma toLowerCase_keywords:
  "toLowerCase ''inbox'' = ''inbox''" "toLowerCase ''sent'' = ''sent''"
  "toLowerCase ''draft'' = ''draft''" "toLowerCase ''spam'' = ''spam''"
  "toLowerCase ''junk'' = ''junk''" "toLowerCase ''trash'' = ''trash''"
  "toLowerCase ''bin'' = ''bin''" "toLowerCase ''important'' = ''important''"
  "toLowerCase ''starred'' = ''starred''" "toLowerCase ''all mail'' = ''all mail''"
  by code_simp+

lemma nameTag_unfold:
  "nameTag n =
     (let l = toLowerCase n in
      if includes_str l ''inbox'' then Some ''inbox''
      else if includes_str l ''sent'' then Some ''sent''
      else if includes_str l ''draft'' then Some ''drafts''
      else if includes_str l ''spam'' then Some ''spam''
      else if includes_str l ''junk'' then Some ''spam''
      else if includes_str l ''trash'' then Some ''trash''
      else if includes_str l ''bin'' then Some ''trash''
      else if includes_str l ''important'' then Some ''important''
      else if includes_str l ''starred'' then Some ''starred''
      else if includes_str l ''all mail'' then Some ''archive''
      else None)"
  by (simp add: nameTag_def nameKeywords_def matchesKeyword_def toLowerCase_keywords Let_def)

lemma flagTag_unfold:
  "flagTag fs =
     (if includes_arr fs (flag ''Inbox'') then Some ''inbox''
      else if includes_arr fs (flag ''Sent'') then Some ''sent''
      else if includes_arr fs (flag ''Drafts'') then Some ''drafts''
      else if includes_arr fs (flag ''Junk'') then Some ''spam''
      else if includes_arr fs (flag ''Spam'') then Some ''spam''
      else if includes_arr fs (flag ''Trash'') then Some ''trash''
      else if includes_arr fs (flag ''Important'') then Some ''important''
      else if includes_arr fs (flag ''All'') then Some ''archive''
      else None)"
  by (simp add: flagTag_def flagKeywords_def includes_arr_def)

lemma determineSpecialUse_refines:
  "determineSpecialUse n fs = classifyFolder_spec n fs"
  unfolding determineSpecialUse_def classifyFolder_spec_def nameTag_unfold flagTag_unfold
    Let_def sent_mail_redundant
  by simp

lemma sent_mail_folder: "determineSpecialUse ''[Gmail]/Sent Mail'' fs = ''sent''"
  by code_simp

lemma junk_flag_tag:
  assumes "flag ''Junk'' \<in> set fs" "flag ''Inbox'' \<notin> set fs" "flag ''Sent'' \<notin> set fs"
    "flag ''Drafts'' \<notin> set fs"
  shows "flagTag fs = Some ''spam''"
  using assms by (simp add: flagTag_unfold includes_arr_def)

text \<open>
  C5, as amended.  For every folder name and list of flags, \<open>determineSpecialUse\<close> is the
  search the specification describes: the first name keyword, in the order inbox, sent,
  draft, spam, junk, trash, bin, important, starred, all mail, that occurs in the
  lower-cased name decides the tag; the ordered flag table is consulted only when no name
  keyword occurs; the tag is \<open>custom\<close> when neither matches.  Names that differ only in
  case get the same tag.  \<open>[Gmail]/Sent Mail\<close> is tagged \<open>sent\<close> whatever the flags; a name
  without keyword whose flags contain \<open>\Junk\<close> and none of \<open>\Inbox\<close>, \<open>\Sent\<close>, \<open>\Drafts\<close>,
  the flags that come before it in the table, is tagged \<open>spam\<close>; a name without keyword
  with flags outside the table is tagged \<open>custom\<close>.
\<close>

theorem determineSpecialUse_classifies:
  "determineSpecialUse folderName flags = classifyFolder_spec folderName flags
   \<and> (toLowerCase folderName = toLowerCase otherName \<longrightarrow>
        determineSpecialUse folderName flags = determineSpecialUse otherName flags)
   \<and> (nameTag folderName \<noteq> None \<longrightarrow>
        Some (determineSpecialUse folderName flags) = nameTag folderName)
   \<and> determineSpecialUse ''[Gmail]/Sent Mail'' flags = ''sent''
   \<and> (nameTag folderName = None \<and> flag ''Junk'' \<in> set flags \<and> flag ''Inbox'' \<notin> set flags
        \<and> flag ''Sent'' \<notin> set flags \<and> flag ''Drafts'' \<notin> set flags \<longrightarrow>
        determineSpecialUse folderName flags = ''spam'')
   \<and> (nameTag folderName = None \<and> flagTag flags = None \<longrightarrow>
        determineSpecialUse folderName flags = ''custom'')"
proof -
  have case_blind: "toLowerCase folderName = toLowerCase otherName \<longrightarrow>
      determineSpecialUse folderName flags = determineSpecialUse otherName flags"
    by (simp add: determineSpecialUse_def)
  have by_name: "nameTag folderName \<noteq> None \<longrightarrow>
      Some (determineSpecialUse folderName flags) = nameTag folderName"
    by (auto simp: determineSpecialUse_refines classifyFolder_spec_def)
  have junk: "nameTag folderName = None \<and> flag ''Junk'' \<in> set flags \<and> flag ''Inbox'' \<notin> set flags
        \<and> flag ''Sent'' \<notin> set flags \<and> flag ''Drafts'' \<notin> set flags \<longrightarrow>
        determineSpecialUse folderName flags = ''spam''"
    by (auto simp: determineSpecialUse_refines classifyFolder_spec_def junk_flag_tag)
  have custom: "nameTag folderName = None \<and> flagTag flags = None \<longrightarrow>
        determineSpecialUse folderName flags = ''custom''"
    by (simp add: determineSpecialUse_refines classifyFolder_spec_def)
  show ?thesis
    using determineSpecialUse_refines [of folderName flags] case_blind by_name
      sent_mail_folder [of flags] junk custom
    by blast
qed

theorem determineSpecialUse_classifies_witness:
  "toLowerCase ''Bulk'' = toLowerCase ''BULK''
   \<and> determineSpecialUse ''Bulk'' [flag ''Junk''] = determineSpecialUse ''BULK'' [flag ''Junk'']
   \<and> nameTag ''Bulk'' = None
   \<and> determineSpecialUse ''Bulk'' [flag ''Junk''] = ''spam''
   \<and> nameTag ''Projects'' = None \<and> flagTag [flag ''HasNoChildren''] = None
   \<and> determineSpecialUse ''Projects'' [flag ''HasNoChildren''] = ''custom''
   \<and> nameTag ''Cabinet'' \<noteq> None
   \<and> Some (determineSpecialUse ''Cabinet'' [flag ''Sent'']) = nameTag ''Cabinet''"
proof -
  have a: "toLowerCase ''Bulk'' = toLowerCase ''BULK''" by code_simp
  have b: "nameTag ''Bulk'' = None" by code_simp
  have c: "nameTag ''Projects'' = None" by code_simp
  have d: "flagTag [flag ''HasNoChildren''] = None" by code_simp
  have e: "nameTag ''Cabinet'' \<noteq> None" by code_simp
  have f: "flag ''Junk'' \<in> set [flag ''Junk''] \<and> flag ''Inbox'' \<notin> set [flag ''Junk'']
      \<and> flag ''Sent'' \<notin> set [flag ''Junk''] \<and> flag ''Drafts'' \<notin> set [flag ''Junk'']"
    by (simp add: flag_def)
  show ?thesis
    using a b c d e f
      determineSpecialUse_classifies [of "''Bulk''" "[flag ''Junk'']" "''BULK''"]
      determineSpecialUse_classifies [of "''Projects''" "[flag ''HasNoChildren'']" "''Projects''"]
      determineSpecialUse_classifies [of "''Cabinet''" "[flag ''Sent'']" "''Cabinet''"]
    by blast
qed

text \<open>
  The sentence of the specification that an unrecognised name with flags containing
  \<open>\Junk\<close> is tagged \<open>spam\<close> does not hold for all such flags: \<open>\Sent\<close> is tested before
  \<open>\Junk\<close>, so the folder \<open>Bulk\<close> with the flags \<open>\Junk\<close> and \<open>\Sent\<close> is tagged \<open>sent\<close>.
\<close>

theorem junk_flag_yields_to_sent_flag:
  "nameTag ''Bulk'' = None
   \<and> flag ''Junk'' \<in> set [flag ''Junk'', flag ''Sent'']
   \<and> determineSpecialUse ''Bulk'' [flag ''Junk'', flag ''Sent''] = ''sent''
   \<and> determineSpecialUse ''Bulk'' [flag ''Junk'', flag ''Sent''] \<noteq> ''spam''"
  by code_simp

section \<open>Properties of the fingerprint\<close>

lemma stripAngle_free: "CHR ''<'' \<notin> set (stripAngle s) \<and> CHR ''>'' \<notin> set (stripAngle s)"
  by (simp add: stripAngle_def)

lemma set_trim: "set (trim s) \<subseteq> set s"
proof -
  have "set (trim s) \<subseteq> set (dropWhile isWhiteSpace s)"
    unfolding trim_def using set_dropWhileD by fastforce
  also have "\<dots> \<subseteq> set s"
    using set_dropWhileD by fastforce
  finally show ?thesis .
qed

lemma trim_last: "trim s \<noteq> [] \<Longrightarrow> \<not> isWhiteSpace (last (trim s))"
  unfolding trim_def by (simp add: last_rev hd_dropWhile)

lemma trim_hd:
  assumes "trim s \<noteq> []"
  shows "\<not> isWhiteSpace (hd (trim s))"
proof -
  define t where "t = dropWhile isWhiteSpace s"
  define r where "r = rev (dropWhile isWhiteSpace (rev t))"
  have r: "r = trim s" by (simp add: r_def t_def trim_def)
  have split: "t = r @ rev (takeWhile isWhiteSpace (rev t))"
    unfolding r_def by (metis rev_append rev_rev_ident takeWhile_dropWhile_id)
  from assms r have "r \<noteq> []" by simp
  with split have "hd t = hd r" and "t \<noteq> []"
    by (metis hd_append2, metis append_is_Nil_conv)
  moreover from \<open>t \<noteq> []\<close> have "\<not> isWhiteSpace (hd t)"
    unfolding t_def by (rule hd_dropWhile)
  ultimately show ?thesis using r by simp
qed

lemma example_ids_clean:
  "messageIdClean ''<abc@x>'' = ''abc@x''" "messageIdClean '' abc@x '' = ''abc@x''"
  by (simp_all add: messageIdClean_def stripAngle_def trim_def isWhiteSpace_def)

lemma stripAngle_without_brackets:
  "CHR ''<'' \<notin> set s \<Longrightarrow> CHR ''>'' \<notin> set s \<Longrightarrow> stripAngle s = s"
  unfolding stripAngle_def by (induction s) auto

lemma stripAngle_drops_bracket:
  "c = CHR ''<'' \<or> c = CHR ''>'' \<Longrightarrow> stripAngle (x @ c # y) = stripAngle (x @ y)"
  by (auto simp: stripAngle_def)

lemma dropWhile_all: "list_all P xs \<Longrightarrow> dropWhile P (xs @ ys) = dropWhile P ys"
  by (induction xs) auto

lemma dropWhile_none: "xs \<noteq> [] \<Longrightarrow> \<not> P (hd xs) \<Longrightarrow> dropWhile P (xs @ ys) = xs @ ys"
  by (cases xs) auto

lemma trim_unique:
  assumes pre: "list_all isWhiteSpace pre" and post: "list_all isWhiteSpace post"
    and ends: "m \<noteq> [] \<longrightarrow> \<not> isWhiteSpace (hd m) \<and> \<not> isWhiteSpace (last m)"
  shows "trim (pre @ m @ post) = m"
proof (cases "m = []")
  case True
  have "dropWhile isWhiteSpace post = []"
    using post by (simp add: list_all_iff)
  with pre have e: "dropWhile isWhiteSpace (pre @ post) = []"
    by (simp add: dropWhile_all)
  show ?thesis unfolding True trim_def append_Nil e by simp
next
  case False
  with ends have h: "\<not> isWhiteSpace (hd m)" and l: "\<not> isWhiteSpace (last m)" by simp_all
  have front: "dropWhile isWhiteSpace (pre @ m @ post) = m @ post"
    using pre False h by (simp add: dropWhile_all dropWhile_none)
  have "list_all isWhiteSpace (rev post)" using post by (simp add: list_all_iff)
  moreover have "rev m \<noteq> []" "\<not> isWhiteSpace (hd (rev m))"
    using False l by (simp_all add: hd_rev)
  ultimately have "dropWhile isWhiteSpace (rev post @ rev m) = rev m"
    using dropWhile_none [of "rev m" isWhiteSpace "[]"] by (simp add: dropWhile_all)
  with front show ?thesis by (simp add: trim_def)
qed

lemma trim_decomposes:
  "\<exists>pre post. s = pre @ trim s @ post \<and> list_all isWhiteSpace pre \<and> list_all isWhiteSpace post"
proof -
  define t where "t = dropWhile isWhiteSpace s"
  have s: "s = takeWhile isWhiteSpace s @ t" by (simp add: t_def)
  have t: "t = trim s @ rev (takeWhile isWhiteSpace (rev t))"
    unfolding trim_def t_def by (metis rev_append rev_rev_ident takeWhile_dropWhile_id)
  have a: "list_all isWhiteSpace (takeWhile isWhiteSpace s)"
    by (auto simp: list_all_iff dest: set_takeWhileD)
  have b: "list_all isWhiteSpace (rev (takeWhile isWhiteSpace (rev t)))"
    by (auto simp: list_all_iff dest: set_takeWhileD)
  from s t have "s = takeWhile isWhiteSpace s @ trim s @ rev (takeWhile isWhiteSpace (rev t))"
    by simp
  with a b show ?thesis by blast
qed

text \<open>
  C6.  The fingerprint is the digest of the normal form of the identifier, and the normal
  form is the identifier with its angle brackets stripped and the surrounding white space
  trimmed.  Stripping leaves an identifier without angle brackets as it is, and an angle
  bracket anywhere in the identifier makes no difference to the result.  The stripped
  identifier is the normal form between two runs of white space; the normal form neither
  starts nor ends with white space, and it is the only such part of the stripped
  identifier, so everything between the surrounding white space is kept, inner blanks
  included.  Two identifiers with the same normal form have the same fingerprint; \<open><abc@x>\<close>
  and \<open>abc@x\<close> between two blanks both have the normal form \<open>abc@x\<close>, hence the same
  fingerprint.
\<close>

theorem fingerprint_of_normal_form:
  "fingerprint sha1hex a = sha1hex (messageIdClean a)
   \<and> CHR ''<'' \<notin> set (messageIdClean a) \<and> CHR ''>'' \<notin> set (messageIdClean a)
   \<and> (messageIdClean a \<noteq> [] \<longrightarrow>
        \<not> isWhiteSpace (hd (messageIdClean a)) \<and> \<not> isWhiteSpace (last (messageIdClean a)))
   \<and> (messageIdClean a = messageIdClean b \<longrightarrow> fingerprint sha1hex a = fingerprint sha1hex b)
   \<and> fingerprint sha1hex ''<abc@x>'' = fingerprint sha1hex '' abc@x ''
   \<and> (CHR ''<'' \<notin> set a \<and> CHR ''>'' \<notin> set a \<longrightarrow> stripAngle a = a)
   \<and> (c = CHR ''<'' \<or> c = CHR ''>'' \<longrightarrow> stripAngle (x @ c # y) = stripAngle (x @ y))
   \<and> (\<exists>pre post. stripAngle a = pre @ messageIdClean a @ post
          \<and> list_all isWhiteSpace pre \<and> list_all isWhiteSpace post)
   \<and> (stripAngle a = before @ m @ after \<and> list_all isWhiteSpace before
        \<and> list_all isWhiteSpace after
        \<and> (m \<noteq> [] \<longrightarrow> \<not> isWhiteSpace (hd m) \<and> \<not> isWhiteSpace (last m)) \<longrightarrow>
        messageIdClean a = m)
   \<and> messageIdClean ''<abc@x>'' = ''abc@x'' \<and> messageIdClean '' abc@x '' = ''abc@x''
   \<and> messageIdClean ''<a b@x>'' = ''a b@x''"
proof -
  have brackets: "CHR ''<'' \<notin> set (messageIdClean a) \<and> CHR ''>'' \<notin> set (messageIdClean a)"
    unfolding messageIdClean_def using set_trim [of "stripAngle a"] stripAngle_free [of a]
    by blast
  have ends: "messageIdClean a \<noteq> [] \<longrightarrow>
      \<not> isWhiteSpace (hd (messageIdClean a)) \<and> \<not> isWhiteSpace (last (messageIdClean a))"
    unfolding messageIdClean_def using trim_hd trim_last by blast
  have kept: "CHR ''<'' \<notin> set a \<and> CHR ''>'' \<notin> set a \<longrightarrow> stripAngle a = a"
    by (simp add: stripAngle_without_brackets)
  have dropped: "c = CHR ''<'' \<or> c = CHR ''>'' \<longrightarrow> stripAngle (x @ c # y) = stripAngle (x @ y)"
    using stripAngle_drops_bracket by blast
  have around: "\<exists>pre post. stripAngle a = pre @ messageIdClean a @ post
          \<and> list_all isWhiteSpace pre \<and> list_all isWhiteSpace post"
    unfolding messageIdClean_def by (rule trim_decomposes)
  have only: "stripAngle a = before @ m @ after \<and> list_all isWhiteSpace before
        \<and> list_all isWhiteSpace after
        \<and> (m \<noteq> [] \<longrightarrow> \<not> isWhiteSpace (hd m) \<and> \<not> isWhiteSpace (last m)) \<longrightarrow>
        messageIdClean a = m"
    unfolding messageIdClean_def using trim_unique [of before after m] by auto
  have inner: "messageIdClean ''<a b@x>'' = ''a b@x''"
    by (simp add: messageIdClean_def stripAngle_def trim_def isWhiteSpace_def)
  have "fingerprint sha1hex a = sha1hex (messageIdClean a)
      \<and> (messageIdClean a = messageIdClean b \<longrightarrow> fingerprint sha1hex a = fingerprint sha1hex b)
      \<and> fingerprint sha1hex ''<abc@x>'' = fingerprint sha1hex '' abc@x ''"
    by (simp add: fingerprint_def example_ids_clean)
  with brackets ends kept dropped around only inner example_ids_clean show ?thesis
    by blast
qed

theorem fingerprint_of_normal_form_witness:
  "messageIdClean '' <Q1@host> '' = messageIdClean ''Q1@host''
   \<and> messageIdClean ''Q1@host'' \<noteq> []
   \<and> fingerprint exampleDigest '' <Q1@host> '' = fingerprint exampleDigest ''Q1@host''
   \<and> \<not> isWhiteSpace (hd (messageIdClean '' <Q1@host> ''))
   \<and> \<not> isWhiteSpace (last (messageIdClean '' <Q1@host> ''))
   \<and> stripAngle ''Q1@host'' = ''Q1@host''
   \<and> stripAngle ('' '' @ CHR ''<'' # ''Q1@host> '') = stripAngle ('' '' @ ''Q1@host> '')
   \<and> stripAngle '' <Q1@host> '' = '' '' @ ''Q1@host'' @ '' ''
   \<and> list_all isWhiteSpace '' ''
   \<and> messageIdClean '' <Q1@host> '' = ''Q1@host''"
proof -
  have b: "messageIdClean ''Q1@host'' = ''Q1@host''"
    by (simp add: messageIdClean_def stripAngle_def trim_def isWhiteSpace_def)
  have s: "stripAngle '' <Q1@host> '' = '' '' @ ''Q1@host'' @ '' ''"
    by (simp add: stripAngle_def)
  have w: "list_all isWhiteSpace '' ''" "\<not> isWhiteSpace (hd ''Q1@host'')"
    "\<not> isWhiteSpace (last ''Q1@host'')" "CHR ''<'' \<notin> set ''Q1@host''"
    "CHR ''>'' \<notin> set ''Q1@host''"
    by (simp_all add: isWhiteSpace_def)
  note normal = fingerprint_of_normal_form [where sha1hex = exampleDigest
      and a = "'' <Q1@host> ''" and b = "''Q1@host''" and before = "'' ''" and after = "'' ''"
      and m = "''Q1@host''" and c = "CHR ''<''" and x = "'' ''" and y = "''Q1@host> ''"]
  note plain = fingerprint_of_normal_form [where sha1hex = exampleDigest
      and a = "''Q1@host''" and b = "''Q1@host''"]
  have a: "messageIdClean '' <Q1@host> '' = ''Q1@host''"
    using normal s w by simp
  have k: "stripAngle ''Q1@host'' = ''Q1@host''"
    using plain w by simp
  have d: "stripAngle ('' '' @ CHR ''<'' # ''Q1@host> '') = stripAngle ('' '' @ ''Q1@host> '')"
    using normal by simp
  show ?thesis
    using normal a b k d s w by (simp add: fingerprint_def)
qed

section \<open>Properties of the processing pipeline\<close>

lemma notifyInterested_returns: "fst (notifyInterested sv c n w) = Returned"
  by (simp add: notifyInterested_def sendInterestedEmailNotification_def
      triggerInterestedEmailWebhook_def Let_def split: option.splits)

lemma notifyInterested_store: "store (snd (notifyInterested sv c n w)) = store w"
  by (simp add: notifyInterested_def sendInterestedEmailNotification_def
      triggerInterestedEmailWebhook_def Let_def split: option.splits)

lemma notifyInterested_slack:
  "slackCalls (snd (notifyInterested sv c n w)) =
     (if c = ''Interested'' then slackCalls w @ [n] else slackCalls w)"
  by (simp add: notifyInterested_def sendInterestedEmailNotification_def
      triggerInterestedEmailWebhook_def Let_def split: option.splits)

lemma notifyInterested_webhook:
  "webhookCalls (snd (notifyInterested sv c n w)) =
     (if c = ''Interested'' \<and> slackFault sv = None then webhookCalls w @ [n] else webhookCalls w)"
  by (simp add: notifyInterested_def sendInterestedEmailNotification_def
      triggerInterestedEmailWebhook_def Let_def split: option.splits)

lemma handleEmail_id:
  assumes "envelopeField messageId_env msg = Some raw" "raw \<noteq> []"
  shows "handleEmail h sv a msg f w =
     (case esGet sv (fingerprint h raw) w of
        Inr found \<Rightarrow> (Returned, w)
      | Inl err \<Rightarrow>
          if statusCode err \<noteq> Some 404 then (Thrown err, w)
          else (case indexFault sv of
                  Some e \<Rightarrow> (Thrown e, w)
                | None \<Rightarrow>
                    notifyInterested sv (categorizeEmail (classify sv) (subjectOf msg) (rawOf msg))
                      (notification a msg)
                      (w\<lparr>store := (store w)(fingerprint h raw \<mapsto>
                           emailDoc sv a msg f (fingerprint h raw) (messageIdClean raw))\<rparr>)))"
  using assms
  by (simp add: handleEmail_def fingerprint_def esIndex_def Let_def split: sum.splits option.splits)

lemma handleEmail_no_id:
  "envelopeField messageId_env msg = None \<or> envelopeField messageId_env msg = Some [] \<Longrightarrow>
   handleEmail h sv a msg f w = (Returned, w)"
  by (auto simp: handleEmail_def)

lemma esGet_found:
  "getFault sv = None \<Longrightarrow> store w i = Some d \<Longrightarrow> esGet sv i w = Inr d"
  by (simp add: esGet_def)

lemma esGet_Inr: "esGet sv i w = Inr d \<Longrightarrow> store w i = Some d"
  by (auto simp: esGet_def split: option.splits)

text \<open>
  C1.  When a message with an identifier has been handled once and that call returned, then
  handling a message with the same identifier again, for any account and folder, with the
  existence query answered by the store, returns at once and leaves the world as it was: no
  index write and no notifier call.  The store holds a document under the fingerprint, and
  the first call added no other id.
\<close>

theorem handleEmail_idempotent:
  assumes ident: "envelopeField messageId_env msg = Some raw" "raw \<noteq> []"
    and same: "envelopeField messageId_env msg2 = Some raw"
    and first: "fst (handleEmail sha1hex sv1 account msg folder w) = Returned"
    and answered: "getFault sv2 = None"
  shows "handleEmail sha1hex sv2 account2 msg2 folder2 (snd (handleEmail sha1hex sv1 account msg folder w))
           = (Returned, snd (handleEmail sha1hex sv1 account msg folder w))
         \<and> store (snd (handleEmail sha1hex sv1 account msg folder w)) (fingerprint sha1hex raw) \<noteq> None
         \<and> dom (store (snd (handleEmail sha1hex sv1 account msg folder w)))
             = insert (fingerprint sha1hex raw) (dom (store w))"
proof -
  let ?fp = "fingerprint sha1hex raw"
  let ?w1 = "snd (handleEmail sha1hex sv1 account msg folder w)"
  have stored: "store ?w1 ?fp \<noteq> None \<and> dom (store ?w1) = insert ?fp (dom (store w))"
  proof (cases "esGet sv1 ?fp w")
    case (Inr d)
    then have "store w ?fp = Some d" by (rule esGet_Inr)
    moreover have "?w1 = w" using Inr ident by (simp add: handleEmail_id)
    ultimately show ?thesis by auto
  next
    case (Inl err)
    show ?thesis
    proof (cases "statusCode err = Some 404")
      case False
      with Inl ident first show ?thesis by (simp add: handleEmail_id)
    next
      case True
      show ?thesis
      proof (cases "indexFault sv1")
        case (Some e)
        with True Inl ident first show ?thesis by (simp add: handleEmail_id)
      next
        case None
        with True Inl ident show ?thesis
          by (simp add: handleEmail_id notifyInterested_store)
      qed
    qed
  qed
  then obtain d where d: "store ?w1 ?fp = Some d" by auto
  have "handleEmail sha1hex sv2 account2 msg2 folder2 ?w1 = (Returned, ?w1)"
    using same ident(2) answered d by (simp add: handleEmail_id esGet_found)
  with stored show ?thesis by simp
qed

lemma categorize_example:
  "categorizeEmail (\<lambda>subject body. Inr (Some ''Interested'')) s b = ''Interested''"
  by (simp add: categorizeEmail_def LABELS_def trim_def isWhiteSpace_def)

lemma message1_fields:
  "envelopeField messageId_env message1 = Some ''<id-1>''"
  "subjectOf message1 = ''Interview Invite''"
  "rawOf message1 = ''Subject: Interview Invite''"
  "notification accountA1 message1 =
     \<lparr>subject_ntf = ''Interview Invite'', from_ntf = ''hr@example.org'', account_ntf = ''A1''\<rparr>"
  by (simp_all add: message1_def envelopeField_def subjectOf_def rawOf_def notification_def
      addresses_def accountA1_def)

lemma example_run_fst:
  "fst (handleEmail exampleDigest servicesUp accountA1 message1 inboxFolder emptyWorld) = Returned"
  by (simp add: handleEmail_id [OF message1_fields(1)] esGet_def servicesUp_def emptyWorld_def
      notifyInterested_returns)

theorem handleEmail_idempotent_witness:
  "envelopeField messageId_env message1 = Some ''<id-1>''
   \<and> fst (handleEmail exampleDigest servicesUp accountA1 message1 inboxFolder emptyWorld) = Returned
   \<and> getFault servicesUp = None
   \<and> handleEmail exampleDigest servicesUp accountA1 message1 inboxFolder
        (snd (handleEmail exampleDigest servicesUp accountA1 message1 inboxFolder emptyWorld))
      = (Returned, snd (handleEmail exampleDigest servicesUp accountA1 message1 inboxFolder emptyWorld))
   \<and> dom (store (snd (handleEmail exampleDigest servicesUp accountA1 message1 inboxFolder emptyWorld)))
      = {fingerprint exampleDigest ''<id-1>''}"
proof -
  have g: "getFault servicesUp = None" by (simp add: servicesUp_def)
  have n: "''<id-1>'' \<noteq> []" by simp
  have e: "dom (store emptyWorld) = {}" by (simp add: emptyWorld_def)
  show ?thesis
    using handleEmail_idempotent [OF message1_fields(1) n message1_fields(1) example_run_fst g,
        of accountA1 inboxFolder]
      message1_fields(1) example_run_fst g e
    by simp
qed

lemma categorize_spam:
  "categorizeEmail (\<lambda>subject body. Inr (Some ''Spam'')) s b = ''Spam''"
  by code_simp

lemma categorize_fails:
  "post s b = Inl e \<Longrightarrow> categorizeEmail post s b = ''Spam''"
  by (simp add: categorizeEmail_def)

text \<open>
  C3, as amended.  For a message that is indexed and resolved to \<open>Interested\<close>, the chat
  notifier is called, and the webhook sink is called exactly when the chat notifier did not
  fail; whether or not either notifier fails, \<open>handleEmail\<close> returns and the store holds
  the document as written.
\<close>

theorem notifier_failures_contained:
  assumes ident: "envelopeField messageId_env msg = Some raw" "raw \<noteq> []"
    and absent: "esGet sv (fingerprint sha1hex raw) w = Inl err" "statusCode err = Some 404"
    and written: "indexFault sv = None"
    and interested: "categorizeEmail (classify sv) (subjectOf msg) (rawOf msg) = ''Interested''"
  shows "fst (handleEmail sha1hex sv account msg folder w) = Returned
     \<and> store (snd (handleEmail sha1hex sv account msg folder w))
         = (store w)(fingerprint sha1hex raw \<mapsto>
              emailDoc sv account msg folder (fingerprint sha1hex raw) (messageIdClean raw))
     \<and> slackCalls (snd (handleEmail sha1hex sv account msg folder w))
         = slackCalls w @ [notification account msg]
     \<and> webhookCalls (snd (handleEmail sha1hex sv account msg folder w))
         = (if slackFault sv = None then webhookCalls w @ [notification account msg]
            else webhookCalls w)"
  using assms
  by (simp add: handleEmail_id notifyInterested_returns notifyInterested_store
      notifyInterested_slack notifyInterested_webhook)

lemma example_webhook_down:
  "esGet servicesWebhookDown i emptyWorld = Inl (ResponseError (Some 404))"
  "indexFault servicesWebhookDown = None" "slackFault servicesWebhookDown = None"
  "webhookFault servicesWebhookDown = Some (OtherError ''webhook sink unreachable'')"
  "categorizeEmail (classify servicesWebhookDown) s b = ''Interested''"
  by (simp_all add: esGet_def servicesWebhookDown_def servicesUp_def emptyWorld_def
      categorize_example)

lemma example_absent:
  "esGet servicesUp i emptyWorld = Inl (ResponseError (Some 404))"
  "esGet servicesSlackDown i emptyWorld = Inl (ResponseError (Some 404))"
  "esGet servicesNotifiersDown i emptyWorld = Inl (ResponseError (Some 404))"
  by (simp_all add: esGet_def servicesUp_def servicesSlackDown_def servicesNotifiersDown_def
      emptyWorld_def)

lemma example_faults:
  "getFault servicesUp = None" "indexFault servicesUp = None" "slackFault servicesUp = None"
  "webhookFault servicesUp = None"
  "getFault servicesSlackDown = None" "indexFault servicesSlackDown = None"
  "slackFault servicesSlackDown = Some (OtherError ''chat notifier unreachable'')"
  "webhookFault servicesSlackDown = None"
  "getFault servicesNotifiersDown = None" "indexFault servicesNotifiersDown = None"
  "slackFault servicesNotifiersDown = Some (OtherError ''chat notifier unreachable'')"
  "webhookFault servicesNotifiersDown = Some (OtherError ''webhook sink unreachable'')"
  by (simp_all add: servicesUp_def servicesSlackDown_def servicesNotifiersDown_def)

lemma emptyWorld_fields:
  "store emptyWorld = Map.empty" "slackCalls emptyWorld = []" "webhookCalls emptyWorld = []"
  "lockLog emptyWorld = []" "timers emptyWorld = []" "clients emptyWorld = Map.empty"
  by (simp_all add: emptyWorld_def)

lemma example_interested:
  "categorizeEmail (classify servicesUp) s b = ''Interested''"
  "categorizeEmail (classify servicesSlackDown) s b = ''Interested''"
  "categorizeEmail (classify servicesNotifiersDown) s b = ''Interested''"
  by (simp_all add: servicesUp_def servicesSlackDown_def servicesNotifiersDown_def
      categorize_example)

theorem notifier_failures_contained_witness:
  "esGet servicesNotifiersDown (fingerprint exampleDigest ''<id-1>'') emptyWorld
     = Inl (ResponseError (Some 404))
   \<and> indexFault servicesNotifiersDown = None
   \<and> slackFault servicesNotifiersDown \<noteq> None \<and> webhookFault servicesNotifiersDown \<noteq> None
   \<and> categorizeEmail (classify servicesNotifiersDown) (subjectOf message1) (rawOf message1)
       = ''Interested''
   \<and> fst (handleEmail exampleDigest servicesNotifiersDown accountA1 message1 inboxFolder emptyWorld)
       = Returned
   \<and> store (snd (handleEmail exampleDigest servicesNotifiersDown accountA1 message1 inboxFolder
         emptyWorld)) (fingerprint exampleDigest ''<id-1>'')
       = Some (emailDoc servicesNotifiersDown accountA1 message1 inboxFolder
           (fingerprint exampleDigest ''<id-1>'') (messageIdClean ''<id-1>''))
   \<and> slackCalls (snd (handleEmail exampleDigest servicesNotifiersDown accountA1 message1
         inboxFolder emptyWorld)) = [notification accountA1 message1]
   \<and> webhookCalls (snd (handleEmail exampleDigest servicesNotifiersDown accountA1 message1
         inboxFolder emptyWorld)) = []
   \<and> slackFault servicesWebhookDown = None \<and> webhookFault servicesWebhookDown \<noteq> None
   \<and> fst (handleEmail exampleDigest servicesWebhookDown accountA1 message1 inboxFolder emptyWorld)
       = Returned
   \<and> slackCalls (snd (handleEmail exampleDigest servicesWebhookDown accountA1 message1
         inboxFolder emptyWorld)) = [notification accountA1 message1]
   \<and> webhookCalls (snd (handleEmail exampleDigest servicesWebhookDown accountA1 message1
         inboxFolder emptyWorld)) = [notification accountA1 message1]"
proof -
  have n: "''<id-1>'' \<noteq> []" by simp
  have s: "statusCode (ResponseError (Some 404)) = Some 404" by simp
  have i: "indexFault servicesNotifiersDown = None"
    by (simp add: servicesNotifiersDown_def servicesUp_def)
  have f: "slackFault servicesNotifiersDown \<noteq> None \<and> webhookFault servicesNotifiersDown \<noteq> None"
    by (simp add: servicesNotifiersDown_def)
  have e: "slackCalls emptyWorld = [] \<and> webhookCalls emptyWorld = []"
    by (simp add: emptyWorld_def)
  show ?thesis
    using notifier_failures_contained [OF message1_fields(1) n example_absent(3) s i
        example_interested(3), where account = accountA1 and folder = inboxFolder]
      notifier_failures_contained [OF message1_fields(1) n example_webhook_down(1) s
        example_webhook_down(2) example_webhook_down(5),
        where account = accountA1 and folder = inboxFolder]
      example_absent(3) [of "fingerprint exampleDigest ''<id-1>''"] i f e
      example_interested(3) [of "subjectOf message1" "rawOf message1"]
      example_webhook_down(3,4)
    by simp
qed

text \<open>
  The sentence of the specification that a failing chat notifier does not keep the webhook
  call from being made does not hold: in the scenario with the chat notifier down the
  webhook sink is not called, while it is called when the chat notifier is up.
\<close>

theorem chat_failure_skips_webhook:
  "categorizeEmail (classify servicesSlackDown) (subjectOf message1) (rawOf message1) = ''Interested''
   \<and> slackFault servicesSlackDown = Some (OtherError ''chat notifier unreachable'')
   \<and> webhookFault servicesSlackDown = None
   \<and> slackCalls (snd (handleEmail exampleDigest servicesSlackDown accountA1 message1 inboxFolder
        emptyWorld)) = [notification accountA1 message1]
   \<and> webhookCalls (snd (handleEmail exampleDigest servicesSlackDown accountA1 message1 inboxFolder
        emptyWorld)) = []
   \<and> webhookCalls (snd (handleEmail exampleDigest servicesUp accountA1 message1 inboxFolder
        emptyWorld)) = [notification accountA1 message1]"
  by (simp add: handleEmail_id [OF message1_fields(1)] example_absent example_interested
      example_faults emptyWorld_fields notifyInterested_slack notifyInterested_webhook)

text \<open>
  C4, as amended.  The document that \<open>handleEmail\<close> newly stores under the fingerprint of a
  message has that fingerprint as its id, and its fields \<open>aiCategory\<close> and \<open>aiConfidence\<close>
  are null.
\<close>

theorem indexed_document_fields:
  assumes ident: "envelopeField messageId_env msg = Some raw"
    and new: "store w (fingerprint sha1hex raw) = None"
    and stored: "store (snd (handleEmail sha1hex sv account msg folder w)) (fingerprint sha1hex raw)
                   = Some d"
  shows "id_doc d = fingerprint sha1hex raw \<and> aiCategory_doc d = None \<and> aiConfidence_doc d = None"
proof (cases "raw = []")
  case True
  with ident have "handleEmail sha1hex sv account msg folder w = (Returned, w)"
    by (simp add: handleEmail_no_id)
  with new stored show ?thesis by simp
next
  case False
  show ?thesis
  proof (cases "esGet sv (fingerprint sha1hex raw) w")
    case (Inr found)
    with ident False new stored show ?thesis by (simp add: handleEmail_id)
  next
    case (Inl err)
    with ident False new stored show ?thesis
      by (auto simp: handleEmail_id notifyInterested_store emailDoc_def
          split: if_splits option.splits)
  qed
qed

text \<open>
  The sentence of the specification that the stored \<open>aiCategory\<close> is the resolved label does
  not hold: in the scenario the label is \<open>Interested\<close> and the stored field is null.
\<close>

theorem aiCategory_not_persisted:
  "categorizeEmail (classify servicesUp) (subjectOf message1) (rawOf message1) = ''Interested''
   \<and> map_option aiCategory_doc
        (store (snd (handleEmail exampleDigest servicesUp accountA1 message1 inboxFolder emptyWorld))
           (fingerprint exampleDigest ''<id-1>''))
       = Some None"
  by (simp add: handleEmail_id [OF message1_fields(1)] example_absent example_interested
      example_faults notifyInterested_store emailDoc_def)

lemma example_run_store:
  "store (snd (handleEmail exampleDigest servicesUp accountA1 message1 inboxFolder emptyWorld))
     (fingerprint exampleDigest ''<id-1>'')
   = Some (emailDoc servicesUp accountA1 message1 inboxFolder
       (fingerprint exampleDigest ''<id-1>'') (messageIdClean ''<id-1>''))"
  by (simp add: handleEmail_id [OF message1_fields(1)] example_absent example_faults
      notifyInterested_store)

theorem indexed_document_fields_witness:
  "envelopeField messageId_env message1 = Some ''<id-1>''
   \<and> store emptyWorld (fingerprint exampleDigest ''<id-1>'') = None
   \<and> store (snd (handleEmail exampleDigest servicesUp accountA1 message1 inboxFolder emptyWorld))
        (fingerprint exampleDigest ''<id-1>'')
      = Some (emailDoc servicesUp accountA1 message1 inboxFolder
          (fingerprint exampleDigest ''<id-1>'') (messageIdClean ''<id-1>''))
   \<and> id_doc (emailDoc servicesUp accountA1 message1 inboxFolder
          (fingerprint exampleDigest ''<id-1>'') (messageIdClean ''<id-1>''))
      = fingerprint exampleDigest ''<id-1>''
   \<and> aiCategory_doc (emailDoc servicesUp accountA1 message1 inboxFolder
          (fingerprint exampleDigest ''<id-1>'') (messageIdClean ''<id-1>'')) = None
   \<and> aiConfidence_doc (emailDoc servicesUp accountA1 message1 inboxFolder
          (fingerprint exampleDigest ''<id-1>'') (messageIdClean ''<id-1>'')) = None"
proof -
  have new: "store emptyWorld (fingerprint exampleDigest ''<id-1>'') = None"
    by (simp add: emptyWorld_fields)
  show ?thesis
    using indexed_document_fields [OF message1_fields(1) new example_run_store]
      message1_fields(1) new example_run_store
    by simp
qed

lemma notifiers_ignore_classify:
  "sendInterestedEmailNotification (sv\<lparr>classify := c\<rparr>) = sendInterestedEmailNotification sv"
  "triggerInterestedEmailWebhook (sv\<lparr>classify := c\<rparr>) = triggerInterestedEmailWebhook sv"
  by (simp_all add: fun_eq_iff sendInterestedEmailNotification_def
      triggerInterestedEmailWebhook_def)

lemma classify_irrelevant:
  "esGet (sv\<lparr>classify := c\<rparr>) = esGet sv"
  "esIndex (sv\<lparr>classify := c\<rparr>) = esIndex sv"
  "emailDoc (sv\<lparr>classify := c\<rparr>) = emailDoc sv"
  "notifyInterested (sv\<lparr>classify := c\<rparr>) = notifyInterested sv"
  by (simp_all add: fun_eq_iff esGet_def esIndex_def emailDoc_def notifyInterested_def
      notifiers_ignore_classify split: option.splits prod.splits outcome.splits)

text \<open>
  C7.  When the classification request fails, \<open>categorizeEmail\<close> answers \<open>Spam\<close>, and
  \<open>handleEmail\<close> does exactly what it does when the service answers \<open>Spam\<close>: a new message
  whose store requests go through is persisted and the call returns, and whatever
  \<open>handleEmail\<close> throws is a fault of the index store.
\<close>

theorem classifier_failure_degrades:
  assumes fails: "classify sv (subjectOf msg) (rawOf msg) = Inl e"
  shows "categorizeEmail (classify sv) (subjectOf msg) (rawOf msg) = ''Spam''
     \<and> handleEmail sha1hex sv account msg folder w
         = handleEmail sha1hex (sv\<lparr>classify := (\<lambda>subject body. Inr (Some ''Spam''))\<rparr>)
             account msg folder w
     \<and> (envelopeField messageId_env msg = Some raw \<and> raw \<noteq> [] \<and> getFault sv = None
          \<and> store w (fingerprint sha1hex raw) = None \<and> indexFault sv = None \<longrightarrow>
        fst (handleEmail sha1hex sv account msg folder w) = Returned
        \<and> store (snd (handleEmail sha1hex sv account msg folder w)) (fingerprint sha1hex raw)
            = Some (emailDoc sv account msg folder (fingerprint sha1hex raw) (messageIdClean raw)))
     \<and> (fst (handleEmail sha1hex sv account msg folder w) = Thrown x \<longrightarrow>
          getFault sv = Some x \<or> indexFault sv = Some x)"
proof -
  have label: "categorizeEmail (classify sv) (subjectOf msg) (rawOf msg) = ''Spam''"
    using fails by (rule categorize_fails)
  have same: "handleEmail sha1hex sv account msg folder w
         = handleEmail sha1hex (sv\<lparr>classify := (\<lambda>subject body. Inr (Some ''Spam''))\<rparr>)
             account msg folder w"
    unfolding handleEmail_def classify_irrelevant Let_def
    by (simp add: label categorize_spam split: option.splits sum.splits prod.splits outcome.splits)
  have persists: "envelopeField messageId_env msg = Some raw \<and> raw \<noteq> [] \<and> getFault sv = None
          \<and> store w (fingerprint sha1hex raw) = None \<and> indexFault sv = None \<longrightarrow>
        fst (handleEmail sha1hex sv account msg folder w) = Returned
        \<and> store (snd (handleEmail sha1hex sv account msg folder w)) (fingerprint sha1hex raw)
            = Some (emailDoc sv account msg folder (fingerprint sha1hex raw) (messageIdClean raw))"
    by (simp add: handleEmail_id esGet_def notifyInterested_returns notifyInterested_store)
  have throws: "fst (handleEmail sha1hex sv account msg folder w) = Thrown x \<longrightarrow>
          getFault sv = Some x \<or> indexFault sv = Some x"
  proof (cases "envelopeField messageId_env msg")
    case None
    then show ?thesis by (simp add: handleEmail_no_id)
  next
    case (Some r)
    show ?thesis
    proof (cases "r = []")
      case True
      with Some show ?thesis by (simp add: handleEmail_no_id)
    next
      case False
      with Some show ?thesis
        by (auto simp: handleEmail_id esGet_def notifyInterested_returns
            split: option.splits if_splits)
    qed
  qed
  from label same persists throws show ?thesis by blast
qed

lemma example_classifier_down:
  "classify servicesClassifierDown s b = Inl (OtherError ''classification service unavailable'')"
  "getFault servicesClassifierDown = None" "indexFault servicesClassifierDown = None"
  "classify servicesClassifierIndexDown s b
     = Inl (OtherError ''classification service unavailable'')"
  "getFault servicesClassifierIndexDown = None"
  "indexFault servicesClassifierIndexDown = Some (ResponseError (Some 503))"
  by (simp_all add: servicesClassifierIndexDown_def servicesClassifierDown_def servicesUp_def)

lemma example_both_down:
  "handleEmail exampleDigest servicesClassifierIndexDown accountA1 message1 inboxFolder emptyWorld
     = (Thrown (ResponseError (Some 503)), emptyWorld)"
  by (simp add: handleEmail_id [OF message1_fields(1)] esGet_def example_classifier_down
      emptyWorld_fields)

theorem classifier_failure_degrades_witness:
  "classify servicesClassifierDown (subjectOf message1) (rawOf message1)
     = Inl (OtherError ''classification service unavailable'')
   \<and> categorizeEmail (classify servicesClassifierDown) (subjectOf message1) (rawOf message1) = ''Spam''
   \<and> envelopeField messageId_env message1 = Some ''<id-1>''
   \<and> getFault servicesClassifierDown = None \<and> indexFault servicesClassifierDown = None
   \<and> store emptyWorld (fingerprint exampleDigest ''<id-1>'') = None
   \<and> fst (handleEmail exampleDigest servicesClassifierDown accountA1 message1 inboxFolder emptyWorld)
       = Returned
   \<and> store (snd (handleEmail exampleDigest servicesClassifierDown accountA1 message1 inboxFolder
         emptyWorld)) (fingerprint exampleDigest ''<id-1>'')
       = Some (emailDoc servicesClassifierDown accountA1 message1 inboxFolder
           (fingerprint exampleDigest ''<id-1>'') (messageIdClean ''<id-1>''))
   \<and> classify servicesClassifierIndexDown (subjectOf message1) (rawOf message1)
     = Inl (OtherError ''classification service unavailable'')
   \<and> fst (handleEmail exampleDigest servicesClassifierIndexDown accountA1 message1 inboxFolder
         emptyWorld) = Thrown (ResponseError (Some 503))
   \<and> indexFault servicesClassifierIndexDown = Some (ResponseError (Some 503))"
proof -
  have new: "store emptyWorld (fingerprint exampleDigest ''<id-1>'') = None"
    by (simp add: emptyWorld_fields)
  have n: "''<id-1>'' \<noteq> []" by simp
  note degrades = classifier_failure_degrades [OF example_classifier_down(1),
        where msg = message1 and sha1hex = exampleDigest and account = accountA1
          and folder = inboxFolder and w = emptyWorld and raw = "''<id-1>''"]
  note aborted = classifier_failure_degrades [OF example_classifier_down(4),
        where msg = message1 and sha1hex = exampleDigest and account = accountA1
          and folder = inboxFolder and w = emptyWorld and x = "ResponseError (Some 503)",
        THEN conjunct2, THEN conjunct2, THEN conjunct2]
  show ?thesis
    using degrades [THEN conjunct1] degrades [THEN conjunct2, THEN conjunct2, THEN conjunct1]
      aborted example_classifier_down example_both_down message1_fields(1) new n
    by simp
qed

text \<open>
  C8.  The existence query fails with status 404 when the store has no document under the
  id.  On an error with status 404 the pipeline goes on to the index write: the document
  is stored and the call returns, or the fault of the write is thrown.  Any other error of
  the existence query is thrown by \<open>handleEmail\<close>, and the world is unchanged.
\<close>

theorem dedup_check_errors:
  assumes ident: "envelopeField messageId_env msg = Some raw" "raw \<noteq> []"
  shows "(getFault sv = None \<and> store w (fingerprint sha1hex raw) = None \<longrightarrow>
            esGet sv (fingerprint sha1hex raw) w = Inl (ResponseError (Some 404)))
     \<and> (getFault sv = Some err \<longrightarrow> esGet sv (fingerprint sha1hex raw) w = Inl err)
     \<and> (esGet sv (fingerprint sha1hex raw) w = Inl err \<and> statusCode err \<noteq> Some 404 \<longrightarrow>
          handleEmail sha1hex sv account msg folder w = (Thrown err, w))
     \<and> (esGet sv (fingerprint sha1hex raw) w = Inl err \<and> statusCode err = Some 404
          \<and> indexFault sv = None \<longrightarrow>
          fst (handleEmail sha1hex sv account msg folder w) = Returned
          \<and> store (snd (handleEmail sha1hex sv account msg folder w)) (fingerprint sha1hex raw)
              = Some (emailDoc sv account msg folder (fingerprint sha1hex raw) (messageIdClean raw)))
     \<and> (esGet sv (fingerprint sha1hex raw) w = Inl err \<and> statusCode err = Some 404
          \<and> indexFault sv = Some e \<longrightarrow>
          handleEmail sha1hex sv account msg folder w = (Thrown e, w))"
  using ident
  by (simp add: handleEmail_id esGet_def notifyInterested_returns notifyInterested_store)

lemma handleEmail_servicesIndexDown:
  assumes "envelopeField messageId_env msg = Some raw" "raw \<noteq> []"
    and "store w (fingerprint exampleDigest raw) = None"
  shows "handleEmail exampleDigest servicesIndexDown a msg f w
           = (Thrown (ResponseError (Some 503)), w)"
  using assms
  by (simp add: handleEmail_id esGet_def servicesIndexDown_def example_faults)

lemma example_store_down:
  "getFault servicesStoreDown = Some (ResponseError (Some 503))"
  by (simp add: servicesStoreDown_def)

theorem dedup_check_errors_witness:
  "envelopeField messageId_env message1 = Some ''<id-1>''
   \<and> esGet servicesStoreDown (fingerprint exampleDigest ''<id-1>'') emptyWorld
       = Inl (ResponseError (Some 503))
   \<and> statusCode (ResponseError (Some 503)) \<noteq> Some 404
   \<and> handleEmail exampleDigest servicesStoreDown accountA1 message1 inboxFolder emptyWorld
       = (Thrown (ResponseError (Some 503)), emptyWorld)
   \<and> esGet servicesUp (fingerprint exampleDigest ''<id-1>'') emptyWorld
       = Inl (ResponseError (Some 404))
   \<and> indexFault servicesUp = None
   \<and> fst (handleEmail exampleDigest servicesUp accountA1 message1 inboxFolder emptyWorld) = Returned
   \<and> store (snd (handleEmail exampleDigest servicesUp accountA1 message1 inboxFolder emptyWorld))
        (fingerprint exampleDigest ''<id-1>'')
       = Some (emailDoc servicesUp accountA1 message1 inboxFolder
           (fingerprint exampleDigest ''<id-1>'') (messageIdClean ''<id-1>''))
   \<and> esGet servicesIndexDown (fingerprint exampleDigest ''<id-1>'') emptyWorld
       = Inl (ResponseError (Some 404))
   \<and> indexFault servicesIndexDown = Some (ResponseError (Some 503))
   \<and> handleEmail exampleDigest servicesIndexDown accountA1 message1 inboxFolder emptyWorld
       = (Thrown (ResponseError (Some 503)), emptyWorld)"
proof -
  have n: "''<id-1>'' \<noteq> []" by simp
  have i: "getFault servicesIndexDown = None
      \<and> indexFault servicesIndexDown = Some (ResponseError (Some 503))"
    by (simp add: servicesIndexDown_def example_faults)
  have s: "statusCode (ResponseError (Some 503)) \<noteq> Some 404
      \<and> statusCode (ResponseError (Some 404)) = Some 404" by simp
  have g: "getFault servicesUp = None \<and> indexFault servicesUp = None"
    by (simp add: example_faults)
  have new: "store emptyWorld (fingerprint exampleDigest ''<id-1>'') = None"
    by (simp add: emptyWorld_fields)
  show ?thesis
    using dedup_check_errors [OF message1_fields(1) n, where sv = servicesStoreDown
          and sha1hex = exampleDigest and w = emptyWorld and err = "ResponseError (Some 503)"
          and account = accountA1 and folder = inboxFolder]
      dedup_check_errors [OF message1_fields(1) n, where sv = servicesUp
          and sha1hex = exampleDigest and w = emptyWorld and err = "ResponseError (Some 404)"
          and account = accountA1 and folder = inboxFolder]
      dedup_check_errors [OF message1_fields(1) n, where sv = servicesIndexDown
          and sha1hex = exampleDigest and w = emptyWorld and err = "ResponseError (Some 404)"
          and e = "ResponseError (Some 503)" and account = accountA1 and folder = inboxFolder]
      message1_fields(1) example_store_down s g i new
    by simp
qed

section \<open>Properties of the folder loop and of the connection\<close>

lemma notifyInterested_lockLog: "lockLog (snd (notifyInterested sv c n w)) = lockLog w"
  by (simp add: notifyInterested_def sendInterestedEmailNotification_def
      triggerInterestedEmailWebhook_def Let_def split: option.splits)

lemma handleEmail_lockLog: "lockLog (snd (handleEmail h sv a msg f w)) = lockLog w"
  by (simp add: handleEmail_def esIndex_def Let_def notifyInterested_lockLog
      split: option.splits sum.splits)

lemma fetchLoop_lockLog: "lockLog (snd (fetchLoop h a f items w)) = lockLog w"
proof (induction h a f items w rule: fetchLoop.induct)
  case (1 h a f w)
  then show ?case by simp
next
  case (2 h a f e rest w)
  then show ?case by simp
next
  case (3 h a f msg sv rest w)
  show ?case
  proof (cases "handleEmail h sv a msg f w")
    case (Pair out w1)
    with handleEmail_lockLog [of h sv a msg f w] have l: "lockLog w1 = lockLog w" by simp
    show ?thesis
    proof (cases out)
      case Returned
      with Pair 3 l show ?thesis by simp
    next
      case (Thrown e)
      with Pair l show ?thesis by simp
    qed
  qed
qed

lemma processFolderEmails_returns: "fst (processFolderEmails h fs a f w) = Returned"
  by (simp add: processFolderEmails_def Let_def split: prod.splits outcome.splits)

lemma processFolderEmails_lockLog:
  "lockLog (snd (processFolderEmails h fs a f w)) =
     lockLog w @ (if lockFault fs = None then [Acquired (path_mb f), Released (path_mb f)] else [])"
proof (cases "lockFault fs")
  case None
  obtain out w2 where loop:
    "fetchLoop h a f (fetched fs) (w\<lparr>lockLog := lockLog w @ [Acquired (path_mb f)]\<rparr>) = (out, w2)"
    by (cases "fetchLoop h a f (fetched fs) (w\<lparr>lockLog := lockLog w @ [Acquired (path_mb f)]\<rparr>)")
  with fetchLoop_lockLog [of h a f "fetched fs" "w\<lparr>lockLog := lockLog w @ [Acquired (path_mb f)]\<rparr>"]
  have "lockLog w2 = lockLog w @ [Acquired (path_mb f)]" by simp
  with None loop show ?thesis
    by (cases out) (simp_all add: processFolderEmails_def getMailboxLock_def release_def)
next
  case (Some e)
  then show ?thesis by (simp add: processFolderEmails_def getMailboxLock_def)
qed

lemma syncFolders_step:
  "syncFolders h ss a running (f # rest) client w =
     syncFolders h ss a running rest
       (if name_mb f = ''INBOX'' then setupRealtimeMonitoring client a f running else client)
       (snd (processFolderEmails h (folderSession ss f) a f w))"
proof (cases "processFolderEmails h (folderSession ss f) a f w")
  case (Pair out w1)
  with processFolderEmails_returns [of h "folderSession ss f" a f w] have "out = Returned" by simp
  with Pair show ?thesis by simp
qed

lemma syncFolders_lockLog:
  "lockLog (snd (syncFolders h ss a running folders client w)) =
     lockLog w @ concat (map (\<lambda>f. if lockFault (folderSession ss f) = None
                                   then [Acquired (path_mb f), Released (path_mb f)] else [])
                          folders)"
proof (induction folders arbitrary: client w)
  case Nil
  then show ?case by simp
next
  case (Cons f rest)
  show ?case
    unfolding syncFolders_step
    by (simp only: Cons.IH processFolderEmails_lockLog list.map concat.simps append_assoc)
qed

text \<open>
  C9.  \<open>processFolderEmails\<close> returns whatever happens inside it, an error thrown by the
  pipeline of a message included.  When the mailbox lock was obtained it is released at
  the end, and nothing else is locked.  The loop over the folders goes on with the next
  folder from the world the folder left behind, so every folder of the listing whose lock
  can be obtained is locked and released, in listing order.
\<close>

theorem folder_failures_isolated:
  "fst (processFolderEmails sha1hex fs account folder w) = Returned
   \<and> lockLog (snd (processFolderEmails sha1hex fs account folder w))
       = lockLog w @ (if lockFault fs = None
                      then [Acquired (path_mb folder), Released (path_mb folder)] else [])
   \<and> syncFolders sha1hex ss account running (folder # rest) client w
       = syncFolders sha1hex ss account running rest
           (if name_mb folder = ''INBOX''
            then setupRealtimeMonitoring client account folder running else client)
           (snd (processFolderEmails sha1hex (folderSession ss folder) account folder w))
   \<and> lockLog (snd (syncFolders sha1hex ss account running folders client w))
       = lockLog w @ concat (map (\<lambda>f. if lockFault (folderSession ss f) = None
                                       then [Acquired (path_mb f), Released (path_mb f)] else [])
                              folders)"
  by (intro conjI processFolderEmails_returns processFolderEmails_lockLog syncFolders_step
      syncFolders_lockLog)

lemma handleEmail_new_docs:
  assumes "store (snd (handleEmail h sv a msg f w)) i = Some d"
  shows "store w i = Some d \<or> folderType_doc d = specialUse_mb f"
proof (cases "envelopeField messageId_env msg")
  case None
  with assms show ?thesis by (simp add: handleEmail_no_id)
next
  case (Some raw)
  show ?thesis
  proof (cases "raw = []")
    case True
    with Some assms show ?thesis by (simp add: handleEmail_no_id)
  next
    case False
    with Some assms show ?thesis
      by (auto simp: handleEmail_id notifyInterested_store emailDoc_def
          split: sum.splits if_splits option.splits)
  qed
qed

lemma fetchLoop_new_docs:
  "store (snd (fetchLoop h a f items w)) i = Some d \<Longrightarrow>
   store w i = Some d \<or> folderType_doc d = specialUse_mb f"
proof (induction h a f items w rule: fetchLoop.induct)
  case (1 h a f w)
  then show ?case by simp
next
  case (2 h a f e rest w)
  then show ?case by simp
next
  case (3 h a f msg sv rest w)
  show ?case
  proof (cases "handleEmail h sv a msg f w")
    case (Pair out w1)
    have first: "\<And>d'. store w1 i = Some d' \<Longrightarrow> store w i = Some d' \<or> folderType_doc d' = specialUse_mb f"
      using handleEmail_new_docs [of h sv a msg f w i] Pair by simp
    show ?thesis
    proof (cases out)
      case Returned
      with Pair 3 have "store w1 i = Some d \<or> folderType_doc d = specialUse_mb f" by simp
      with first show ?thesis by blast
    next
      case (Thrown e)
      with Pair 3(2) first show ?thesis by simp
    qed
  qed
qed

lemma processFolderEmails_new_docs:
  assumes "store (snd (processFolderEmails h fs a f w)) i = Some d"
  shows "store w i = Some d \<or> folderType_doc d = specialUse_mb f"
proof (cases "lockFault fs")
  case None
  obtain out w2 where loop:
    "fetchLoop h a f (fetched fs) (w\<lparr>lockLog := lockLog w @ [Acquired (path_mb f)]\<rparr>) = (out, w2)"
    by (cases "fetchLoop h a f (fetched fs) (w\<lparr>lockLog := lockLog w @ [Acquired (path_mb f)]\<rparr>)")
  with None assms have "store w2 i = Some d"
    by (cases out) (simp_all add: processFolderEmails_def getMailboxLock_def release_def)
  with loop fetchLoop_new_docs [of h a f "fetched fs"
      "w\<lparr>lockLog := lockLog w @ [Acquired (path_mb f)]\<rparr>" i d]
  show ?thesis by simp
next
  case (Some e)
  with assms show ?thesis by (simp add: processFolderEmails_def getMailboxLock_def)
qed

lemma syncFolders_new_docs:
  "list_all (\<lambda>f. specialUse_mb f = t) folders \<Longrightarrow>
   store (snd (syncFolders h ss a running folders client w)) i = Some d \<Longrightarrow>
   store w i = Some d \<or> folderType_doc d = t"
proof (induction folders arbitrary: client w)
  case Nil
  then show ?case by simp
next
  case (Cons f rest)
  let ?w1 = "snd (processFolderEmails h (folderSession ss f) a f w)"
  from Cons.prems have t: "specialUse_mb f = t" and rest: "list_all (\<lambda>f. specialUse_mb f = t) rest"
    by simp_all
  from Cons.prems(2) have "store ?w1 i = Some d \<or> folderType_doc d = t"
    unfolding syncFolders_step by (rule Cons.IH [OF rest])
  with processFolderEmails_new_docs [of h "folderSession ss f" a f w i d] t
  show ?case by blast
qed

lemma getAllFolders_fails: "getAllFolders (Inl e) a w = ([fallbackInbox], w)"
  by (simp add: getAllFolders_def fallbackInbox_def)

lemma connectAndSync_new_docs:
  assumes "listing ss = Inl e"
    and "store (snd (connectAndSync h ss a w)) i = Some d"
  shows "store w i = Some d \<or> folderType_doc d = None"
proof (cases "connectFault ss")
  case (Some x)
  with assms show ?thesis by (simp add: connectAndSync_def)
next
  case None
  obtain client1 w2 where sync:
    "syncFolders h ss a True [fallbackInbox] \<lparr>existsListeners = [], closeListeners = []\<rparr> w
       = (client1, w2)"
    by (cases "syncFolders h ss a True [fallbackInbox] \<lparr>existsListeners = [], closeListeners = []\<rparr> w")
  with None assms have "store w2 i = Some d"
    by (simp add: connectAndSync_def getAllFolders_fails Let_def)
  moreover have "list_all (\<lambda>f. specialUse_mb f = None) [fallbackInbox]"
    by (simp add: fallbackInbox_def)
  ultimately show ?thesis
    using syncFolders_new_docs [of None "[fallbackInbox]" h ss a True
        "\<lparr>existsListeners = [], closeListeners = []\<rparr>" w i d] sync
    by simp
qed

text \<open>
  C10.  When the folders cannot be listed, \<open>getAllFolders\<close> answers with the single entry
  \<open>INBOX\<close> with no flags and no special use, and changes nothing.  A document that
  \<open>handleEmail\<close> stores for that entry, and hence every document that the run of
  \<open>connectAndSync\<close> adds to the store, has no \<open>folderType\<close>.
\<close>

theorem discovery_failure_fallback:
  assumes fails: "listing ss = Inl e"
  shows "getAllFolders (listing ss) account w
           = ([\<lparr>name_mb = ''INBOX'', path_mb = ''INBOX'', flags_mb = [], specialUse_mb = None\<rparr>], w)
     \<and> (store (snd (handleEmail sha1hex sv account msg
            \<lparr>name_mb = ''INBOX'', path_mb = ''INBOX'', flags_mb = [], specialUse_mb = None\<rparr> w)) i
          = Some d \<longrightarrow>
        store w i = Some d \<or> folderType_doc d = None)
     \<and> (store (snd (connectAndSync sha1hex ss account w)) j = Some d' \<longrightarrow>
        store w j = Some d' \<or> folderType_doc d' = None)"
  using fails getAllFolders_fails [of e account w]
    handleEmail_new_docs [of sha1hex sv account msg fallbackInbox w i d]
    connectAndSync_new_docs [OF fails, of sha1hex account w j d']
  by (simp add: fallbackInbox_def)

lemma message2_fields:
  "envelopeField messageId_env message2 = Some ''<id-2>''"
  by (simp add: message2_def envelopeField_def)

lemma handleEmail_servicesUp_new:
  assumes "envelopeField messageId_env msg = Some raw" "raw \<noteq> []"
    and "store w (fingerprint exampleDigest raw) = None"
  shows "handleEmail exampleDigest servicesUp a msg f w =
     (Returned,
      w\<lparr>store := (store w)(fingerprint exampleDigest raw \<mapsto>
           emailDoc servicesUp a msg f (fingerprint exampleDigest raw) (messageIdClean raw)),
        slackCalls := slackCalls w @ [notification a msg],
        webhookCalls := webhookCalls w @ [notification a msg]\<rparr>)"
  using assms
  by (simp add: handleEmail_id esGet_def example_faults example_interested notifyInterested_def
      sendInterestedEmailNotification_def triggerInterestedEmailWebhook_def)

lemma sent_folder_run:
  "processFolderEmails exampleDigest (folderSession sessionSentFails sentFolder) accountA1
     sentFolder emptyWorld
   = (Returned, emptyWorld\<lparr>lockLog := [Acquired ''Sent'', Released ''Sent'']\<rparr>)"
proof -
  have folder: "name_mb sentFolder = ''Sent''" "path_mb sentFolder = ''Sent''"
    by (simp_all add: sentFolder_def)
  have n: "''<id-1>'' \<noteq> []" by simp
  show ?thesis
    by (simp add: processFolderEmails_def sessionSentFails_def folder getMailboxLock_def
        release_def handleEmail_servicesIndexDown [OF message1_fields(1) n] emptyWorld_fields)
qed

lemma inbox_folder_run:
  "processFolderEmails exampleDigest (folderSession sessionSentFails inboxFolder) accountA1
     inboxFolder (emptyWorld\<lparr>lockLog := [Acquired ''Sent'', Released ''Sent'']\<rparr>)
   = (Returned,
      emptyWorld\<lparr>lockLog := [Acquired ''Sent'', Released ''Sent'', Acquired ''INBOX'',
                              Released ''INBOX''],
        store := [fingerprint exampleDigest ''<id-2>'' \<mapsto>
           emailDoc servicesUp accountA1 message2 inboxFolder
             (fingerprint exampleDigest ''<id-2>'') (messageIdClean ''<id-2>'')],
        slackCalls := [notification accountA1 message2],
        webhookCalls := [notification accountA1 message2]\<rparr>)"
proof -
  have folder: "name_mb inboxFolder = ''INBOX''" "path_mb inboxFolder = ''INBOX''"
    by (simp_all add: inboxFolder_def)
  have n: "''<id-2>'' \<noteq> []" by simp
  show ?thesis
    by (simp add: processFolderEmails_def sessionSentFails_def folder getMailboxLock_def
        release_def handleEmail_servicesUp_new [OF message2_fields n] emptyWorld_fields)
qed

lemma two_folders_store:
  "store (snd (syncFolders exampleDigest sessionSentFails accountA1 True [sentFolder, inboxFolder]
       \<lparr>existsListeners = [], closeListeners = []\<rparr> emptyWorld))
   = [fingerprint exampleDigest ''<id-2>'' \<mapsto>
        emailDoc servicesUp accountA1 message2 inboxFolder
          (fingerprint exampleDigest ''<id-2>'') (messageIdClean ''<id-2>'')]"
  by (simp add: sent_folder_run inbox_folder_run)

theorem folder_failures_isolated_witness:
  "handleEmail exampleDigest servicesIndexDown accountA1 message1 sentFolder emptyWorld
     = (Thrown (ResponseError (Some 503)), emptyWorld)
   \<and> fetched (folderSession sessionSentFails sentFolder) = [Yield message1 servicesIndexDown]
   \<and> fst (processFolderEmails exampleDigest (folderSession sessionSentFails sentFolder) accountA1
        sentFolder emptyWorld) = Returned
   \<and> lockLog (snd (processFolderEmails exampleDigest (folderSession sessionSentFails sentFolder)
        accountA1 sentFolder emptyWorld)) = [Acquired ''Sent'', Released ''Sent'']
   \<and> lockLog (snd (syncFolders exampleDigest sessionSentFails accountA1 True
        [sentFolder, inboxFolder] \<lparr>existsListeners = [], closeListeners = []\<rparr> emptyWorld))
      = [Acquired ''Sent'', Released ''Sent'', Acquired ''INBOX'', Released ''INBOX'']
   \<and> store (snd (syncFolders exampleDigest sessionSentFails accountA1 True
        [sentFolder, inboxFolder] \<lparr>existsListeners = [], closeListeners = []\<rparr> emptyWorld))
        (fingerprint exampleDigest ''<id-2>'')
      = Some (emailDoc servicesUp accountA1 message2 inboxFolder
          (fingerprint exampleDigest ''<id-2>'') (messageIdClean ''<id-2>''))"
proof -
  have n: "''<id-1>'' \<noteq> []" by simp
  have sessions:
    "lockFault (folderSession sessionSentFails sentFolder) = None"
    "fetched (folderSession sessionSentFails sentFolder) = [Yield message1 servicesIndexDown]"
    "lockFault (folderSession sessionSentFails inboxFolder) = None"
    by (simp_all add: sessionSentFails_def sentFolder_def inboxFolder_def)
  have paths: "path_mb sentFolder = ''Sent''" "path_mb inboxFolder = ''INBOX''"
    by (simp_all add: sentFolder_def inboxFolder_def)
  note isolated = folder_failures_isolated [where sha1hex = exampleDigest
      and fs = "folderSession sessionSentFails sentFolder" and account = accountA1
      and folder = sentFolder and w = emptyWorld and ss = sessionSentFails and running = True
      and folders = "[sentFolder, inboxFolder]"
      and client = "\<lparr>existsListeners = [], closeListeners = []\<rparr>"]
  have returned: "fst (processFolderEmails exampleDigest (folderSession sessionSentFails sentFolder)
        accountA1 sentFolder emptyWorld) = Returned"
    using isolated [THEN conjunct1] .
  have released: "lockLog (snd (processFolderEmails exampleDigest
        (folderSession sessionSentFails sentFolder) accountA1 sentFolder emptyWorld))
      = [Acquired ''Sent'', Released ''Sent'']"
    using isolated [THEN conjunct2, THEN conjunct1]
    by (simp add: sessions paths emptyWorld_fields)
  have both: "lockLog (snd (syncFolders exampleDigest sessionSentFails accountA1 True
        [sentFolder, inboxFolder] \<lparr>existsListeners = [], closeListeners = []\<rparr> emptyWorld))
      = [Acquired ''Sent'', Released ''Sent'', Acquired ''INBOX'', Released ''INBOX'']"
    using isolated [THEN conjunct2, THEN conjunct2, THEN conjunct2]
    by (simp add: sessions paths emptyWorld_fields del: syncFolders.simps)
  show ?thesis
    using returned released both
    by (simp add: handleEmail_servicesIndexDown [OF message1_fields(1) n] emptyWorld_fields
        sessions two_folders_store del: syncFolders.simps)
qed

lemma no_listing_run:
  "store (snd (connectAndSync exampleDigest sessionNoListing accountA1 emptyWorld))
     (fingerprint exampleDigest ''<id-1>'')
   = Some (emailDoc servicesUp accountA1 message1 fallbackInbox
       (fingerprint exampleDigest ''<id-1>'') (messageIdClean ''<id-1>''))"
proof -
  have session: "connectFault sessionNoListing = None"
    "listing sessionNoListing = Inl (OtherError ''LIST failed'')"
    "folderSession sessionNoListing fallbackInbox
       = \<lparr>lockFault = None, fetched = [Yield message1 servicesUp]\<rparr>"
    by (simp_all add: sessionNoListing_def)
  have n: "''<id-1>'' \<noteq> []" by simp
  show ?thesis
    by (simp add: connectAndSync_def session getAllFolders_fails processFolderEmails_def
        getMailboxLock_def release_def handleEmail_servicesUp_new [OF message1_fields(1) n]
        emptyWorld_fields Let_def)
qed

theorem discovery_failure_fallback_witness:
  "listing sessionNoListing = Inl (OtherError ''LIST failed'')
   \<and> getAllFolders (listing sessionNoListing) accountA1 emptyWorld
       = ([\<lparr>name_mb = ''INBOX'', path_mb = ''INBOX'', flags_mb = [], specialUse_mb = None\<rparr>],
          emptyWorld)
   \<and> store emptyWorld (fingerprint exampleDigest ''<id-1>'') = None
   \<and> store (snd (connectAndSync exampleDigest sessionNoListing accountA1 emptyWorld))
        (fingerprint exampleDigest ''<id-1>'')
       = Some (emailDoc servicesUp accountA1 message1 fallbackInbox
           (fingerprint exampleDigest ''<id-1>'') (messageIdClean ''<id-1>''))
   \<and> store (snd (handleEmail exampleDigest servicesUp accountA1 message1 fallbackInbox emptyWorld))
        (fingerprint exampleDigest ''<id-1>'')
       = Some (emailDoc servicesUp accountA1 message1 fallbackInbox
           (fingerprint exampleDigest ''<id-1>'') (messageIdClean ''<id-1>''))
   \<and> folderType_doc (emailDoc servicesUp accountA1 message1 fallbackInbox
           (fingerprint exampleDigest ''<id-1>'') (messageIdClean ''<id-1>'')) = None"
proof -
  have fails: "listing sessionNoListing = Inl (OtherError ''LIST failed'')"
    by (simp add: sessionNoListing_def)
  have n: "''<id-1>'' \<noteq> []" by simp
  have one: "store (snd (handleEmail exampleDigest servicesUp accountA1 message1 fallbackInbox
        emptyWorld)) (fingerprint exampleDigest ''<id-1>'')
       = Some (emailDoc servicesUp accountA1 message1 fallbackInbox
           (fingerprint exampleDigest ''<id-1>'') (messageIdClean ''<id-1>''))"
    by (simp add: handleEmail_servicesUp_new [OF message1_fields(1) n] emptyWorld_fields)
  have new: "store emptyWorld (fingerprint exampleDigest ''<id-1>'') = None"
    by (simp add: emptyWorld_fields)
  note fallback = discovery_failure_fallback [OF fails, where sha1hex = exampleDigest
      and account = accountA1 and w = emptyWorld and j = "fingerprint exampleDigest ''<id-1>''"
      and d' = "emailDoc servicesUp accountA1 message1 fallbackInbox
           (fingerprint exampleDigest ''<id-1>'') (messageIdClean ''<id-1>'')"
      and sv = servicesUp and msg = message1 and i = "fingerprint exampleDigest ''<id-1>''"
      and d = "emailDoc servicesUp accountA1 message1 fallbackInbox
           (fingerprint exampleDigest ''<id-1>'') (messageIdClean ''<id-1>'')"]
  show ?thesis
    using fallback [THEN conjunct1] fallback [THEN conjunct2, THEN conjunct1]
      fallback [THEN conjunct2, THEN conjunct2] fails new no_listing_run one
    by (simp add: fallbackInbox_def [symmetric])
qed

subsection \<open>Events after the connection has closed\<close>

text \<open>
  The close callbacks change their own bindings and the timers, nothing else: the bindings
  of the \<open>exists\<close> callbacks of the client are after a close event what they were before.
\<close>

lemma runClose_clients: "clients (snd (runClose ls w)) = clients w"
proof (induction ls arbitrary: w)
  case Nil
  then show ?case by simp
next
  case (Cons l ls)
  from Cons.IH [of "w\<lparr>timers := timers w @ [(10000, account_cl l)]\<rparr>"]
  show ?case by (auto simp: onClose_def split: prod.splits)
qed

lemma emitClose_keeps_exists_listeners:
  "map_option existsListeners (clients (emitClose accountId w) accountId)
     = map_option existsListeners (clients w accountId)"
proof (cases "clients w accountId")
  case None
  then show ?thesis by (simp add: emitClose_def)
next
  case (Some client)
  then show ?thesis by (simp add: emitClose_def split: prod.splits)
qed

lemma inbox_special_use: "determineSpecialUse ''INBOX'' [] = ''inbox''"
  by code_simp

lemma fingerprints_differ:
  "fingerprint exampleDigest ''<id-1>'' \<noteq> fingerprint exampleDigest ''<id-2>''"
  by (simp add: fingerprint_def exampleDigest_def messageIdClean_def stripAngle_def trim_def
      isWhiteSpace_def)

lemma afterSync_eval:
  "afterSync =
     emptyWorld\<lparr>store := [fingerprint exampleDigest ''<id-1>'' \<mapsto>
                    emailDoc servicesUp accountA1 message1 inboxFolder
                      (fingerprint exampleDigest ''<id-1>'') (messageIdClean ''<id-1>'')],
       slackCalls := [notification accountA1 message1],
       webhookCalls := [notification accountA1 message1],
       lockLog := [Acquired ''INBOX'', Released ''INBOX''],
       folderCache := [''A1'' \<mapsto> [inboxFolder]],
       clients := [''A1'' \<mapsto>
         \<lparr>existsListeners = [\<lparr>account_el = accountA1, folder_el = inboxFolder, running_el = True\<rparr>],
          closeListeners = [\<lparr>account_cl = accountA1, running_cl = True\<rparr>]\<rparr>]\<rparr>"
proof -
  have folders: "getAllFolders (listing sessionA1) accountA1 emptyWorld =
      ([inboxFolder], emptyWorld\<lparr>folderCache := [''A1'' \<mapsto> [inboxFolder]]\<rparr>)"
    by (simp add: getAllFolders_def sessionA1_def inbox_special_use inboxFolder_def
        accountA1_def emptyWorld_def Let_def)
  have one: "handleEmail exampleDigest servicesUp accountA1 message1 inboxFolder
       (emptyWorld\<lparr>folderCache := [''A1'' \<mapsto> [inboxFolder]], lockLog := [Acquired ''INBOX'']\<rparr>)
     = (Returned,
        emptyWorld\<lparr>folderCache := [''A1'' \<mapsto> [inboxFolder]], lockLog := [Acquired ''INBOX''],
          store := [fingerprint exampleDigest ''<id-1>'' \<mapsto>
                    emailDoc servicesUp accountA1 message1 inboxFolder
                      (fingerprint exampleDigest ''<id-1>'') (messageIdClean ''<id-1>'')],
          slackCalls := [notification accountA1 message1],
          webhookCalls := [notification accountA1 message1]\<rparr>)"
    by (simp add: handleEmail_servicesUp_new [OF message1_fields(1)] emptyWorld_fields)
  have folder: "processFolderEmails exampleDigest (folderSession sessionA1 inboxFolder) accountA1
        inboxFolder (emptyWorld\<lparr>folderCache := [''A1'' \<mapsto> [inboxFolder]]\<rparr>)
     = (Returned,
        emptyWorld\<lparr>folderCache := [''A1'' \<mapsto> [inboxFolder]],
          lockLog := [Acquired ''INBOX'', Released ''INBOX''],
          store := [fingerprint exampleDigest ''<id-1>'' \<mapsto>
                    emailDoc servicesUp accountA1 message1 inboxFolder
                      (fingerprint exampleDigest ''<id-1>'') (messageIdClean ''<id-1>'')],
          slackCalls := [notification accountA1 message1],
          webhookCalls := [notification accountA1 message1]\<rparr>)"
    by (simp add: processFolderEmails_def getMailboxLock_def release_def sessionA1_def
        emptyWorld_fields one [simplified] inboxFolder_def [THEN arg_cong, of path_mb])
  have connect: "connectFault sessionA1 = None" by (simp add: sessionA1_def)
  have names: "name_mb inboxFolder = ''INBOX''" "id_acct accountA1 = ''A1''"
    by (simp_all add: inboxFolder_def accountA1_def)
  show ?thesis
    unfolding afterSync_def connectAndSync_def
    by (simp add: connect folders folder names setupRealtimeMonitoring_def
        setupConnectionMaintenance_def; simp add: emptyWorld_def)
qed

lemma afterClose_eval:
  "afterClose =
     afterSync\<lparr>timers := [(10000, accountA1)],
       clients := [''A1'' \<mapsto>
         \<lparr>existsListeners = [\<lparr>account_el = accountA1, folder_el = inboxFolder, running_el = True\<rparr>],
          closeListeners = [\<lparr>account_cl = accountA1, running_cl = False\<rparr>]\<rparr>]\<rparr>"
  unfolding afterClose_def emitClose_def
  by (simp add: afterSync_eval onClose_def emptyWorld_fields)

lemma afterClose_fields:
  "store afterClose (fingerprint exampleDigest ''<id-2>'') = None"
  "lockLog afterClose = [Acquired ''INBOX'', Released ''INBOX'']"
  "timers afterClose = [(10000, accountA1)]"
  "clients afterClose ''A1'' = Some
     \<lparr>existsListeners = [\<lparr>account_el = accountA1, folder_el = inboxFolder, running_el = True\<rparr>],
      closeListeners = [\<lparr>account_cl = accountA1, running_cl = False\<rparr>]\<rparr>"
  using fingerprints_differ by (simp_all add: afterClose_eval afterSync_eval emptyWorld_fields)

lemma live_event_handled:
  "onExists exampleDigest liveSession1
     \<lparr>account_el = accountA1, folder_el = inboxFolder, running_el = True\<rparr> afterClose
   = (Returned,
      afterClose\<lparr>lockLog := lockLog afterClose @ [Acquired ''INBOX'', Released ''INBOX''],
        store := (store afterClose)(fingerprint exampleDigest ''<id-2>'' \<mapsto>
           emailDoc servicesUp accountA1 message2 inboxFolder
             (fingerprint exampleDigest ''<id-2>'') (messageIdClean ''<id-2>'')),
        slackCalls := slackCalls afterClose @ [notification accountA1 message2],
        webhookCalls := webhookCalls afterClose @ [notification accountA1 message2]\<rparr>)"
proof -
  have path: "path_mb inboxFolder = ''INBOX''" by (simp add: inboxFolder_def)
  have live: "lockFault_live liveSession1 = None" "status liveSession1 = Inr (Some 3)"
    "fetchedUid liveSession1 2 = [Yield message2 servicesUp]"
    by (simp_all add: liveSession1_def)
  have n: "''<id-2>'' \<noteq> []" by simp
  show ?thesis
    by (simp add: onExists_def getMailboxLock_def release_def path live
        handleEmail_servicesUp_new [OF message2_fields n] afterClose_fields)
qed

lemma closed_event_rejected:
  "onExists exampleDigest liveSessionClosed
     \<lparr>account_el = accountA1, folder_el = inboxFolder, running_el = True\<rparr> afterClose
   = (Thrown (OtherError ''Connection not available''), afterClose)"
  by (simp add: onExists_def getMailboxLock_def liveSessionClosed_def)

text \<open>
  C2.  The scenario continued shows what the code does after a close event.  The close
  callback has set its own \<open>running\<close> to false and set the reconnect timer, the \<open>exists\<close>
  callback still holds \<open>running = true\<close>, and an \<open>exists\<close> event delivered then takes the
  mailbox lock, fetches the new message and indexes it.  When the closed connection
  refuses the lock, the callback is rejected with that error: it asked for the lock.
\<close>

theorem exists_after_close_is_handled:
  "map_option closeListeners (clients afterClose ''A1'')
     = Some [\<lparr>account_cl = accountA1, running_cl = False\<rparr>]
   \<and> timers afterClose = [(10000, accountA1)]
   \<and> map_option existsListeners (clients afterClose ''A1'')
     = Some [\<lparr>account_el = accountA1, folder_el = inboxFolder, running_el = True\<rparr>]
   \<and> store afterClose (fingerprint exampleDigest ''<id-2>'') = None
   \<and> lockLog afterExists = lockLog afterClose @ [Acquired ''INBOX'', Released ''INBOX'']
   \<and> store afterExists (fingerprint exampleDigest ''<id-2>'')
     = Some (emailDoc servicesUp accountA1 message2 inboxFolder
         (fingerprint exampleDigest ''<id-2>'') (messageIdClean ''<id-2>''))
   \<and> onExists exampleDigest liveSessionClosed
       \<lparr>account_el = accountA1, folder_el = inboxFolder, running_el = True\<rparr> afterClose
     = (Thrown (OtherError ''Connection not available''), afterClose)"
  by (simp add: afterExists_def emitExists_def afterClose_fields live_event_handled
      closed_event_rejected)

end
